theory Spec2Isabelle
  imports Main "HOL-Library.AList"
begin

section \<open>Data model of the analysis-run orchestrator (lib/cli/analyze.ts)\<close>

text \<open>
  The orchestrator of \<^verbatim>\<open>packages/hint/src/lib/cli/analyze.ts\<close> is embedded with explicit
  state passing. Everything the TypeScript does beyond returning a value (looking for the user
  configuration, logging, prompting, installing packages, constructing the analyzer, telemetry
  calls, persistent-store access, spinner control, formatting) is appended as an \<open>event\<close> to
  the \<open>trace\<close> of the \<open>world\<close>. A thrown exception is the \<open>Inl\<close> branch of a sum.

  Values of TypeScript type \<^verbatim>\<open>any\<close> (hint options, connector options) are kept as
  uninterpreted strings.

  Left out: the output of \<^verbatim>\<open>debug(...)\<close> and the total run time computed for it.
  The construction of the analyzer, the analyze call of the engine and the interactive prompt
  may throw, and the analyze call may never settle; the installer (which reports failure by its
  result), the persistent store, the telemetry handle and the formatters are taken to return.
\<close>

type_synonym json = string

text \<open>
  Modelled from the spec: the enumeration \<^verbatim>\<open>Severity\<close> (\<^verbatim>\<open>@hint/utils\<close>, not in the
  sources at hand); section 3 gives the severities of a finding.
\<close>

datatype Severity = Severity_error | Severity_warning | Severity_information | Severity_hint

record Problem =
  severity :: Severity
  message :: string

record URL =
  protocol :: string
  href :: string

text \<open>A hint is configured by a severity alone or by a pair of a severity and options.\<close>

datatype HintConfig = HintSeverity string | HintSeverityOptions string json

text \<open>The \<^verbatim>\<open>hints\<close> entry is an object from hint ids to configurations, or an array.\<close>

datatype HintsConfig = HintsConfigObject "(string \<times> HintConfig) list" | HintsConfigArray "json list"

text \<open>The \<^verbatim>\<open>connector\<close> entry is a connector name or an object with a name and options.\<close>

datatype Connector = ConnectorName string | ConnectorConfig string "json option"

record UserConfig =
  browserslist :: "string list option"
  connector :: "Connector option"
  extends :: "string list option"
  formatters :: "string list option"
  hints :: "HintsConfig option"
  hintsTimeout :: "int option"
  language :: "string option"
  parsers :: "string list option"

record CLIOptions =
  underscore :: "string list"
  cli_config :: "string option"
  cli_debug :: bool
  cli_formatters :: "string option"
  cli_hints :: "string option"
  cli_language :: "string option"
  cli_output :: "string option"
  cli_watch :: "bool option"

record CreateAnalyzerOptions =
  opt_formatters :: "string list option"
  opt_hints :: "string list option"
  opt_watch :: "bool option"

record HintResources =
  missing :: "string list"
  incompatible :: "string list"

text \<open>
  Modelled from the spec: \<^verbatim>\<open>AnalyzerError\<close> with its \<^verbatim>\<open>status\<close> discriminant
  (\<^verbatim>\<open>../enums/error-status\<close> and \<^verbatim>\<open>../types\<close> are not in the sources at hand); a
  \<open>ResourceError\<close> carries the resources, a \<open>HintError\<close> the invalid hint ids.
  Any other thrown value is an \<open>Error\<close> with its message.
\<close>

datatype AnalyzerError =
    ConfigurationError
  | ResourceError HintResources
  | HintError "string list"
  | ConnectorError

datatype exn = AnalyzerErr AnalyzerError | Error string

text \<open>
  The engine behind a ready analyzer is an external collaborator. What \<^verbatim>\<open>webhint.analyze\<close>
  does to the orchestrator is to call the three progress hooks in some order and then to return,
  to throw, or never to settle; an analyzer is therefore the script of hook calls it will make
  (each with the reading of \<^verbatim>\<open>Date.now()\<close> inside the hook), the exception it ends
  with, if any, and whether the promise of its analyze call stays pending for ever.
\<close>

datatype engine_step =
    TargetStart string int
  | Update string
  | TargetEnd string int "Problem list"

record Analyzer =
  script :: "engine_step list"
  failure :: "exn option"
  hangs :: bool

subsection \<open>Messages, questions, telemetry events\<close>

text \<open>The texts of log messages and questions are abstracted to what they depend on.\<close>

datatype message =
    TelemetryMessage
  | CITelemetryMessage
  | DefaultMessage
  | MissingPackages "string list"
  | IncompatiblePackages "string list"
  | InvalidHints "string list"
  | InvalidConnector
  | ErrorMessage exn

datatype question =
    TelemetryQuestion
  | DefaultConfigurationQuestion
  | InstallDependenciesQuestion "string list"

text \<open>
  The connector of the pruned configuration is \<^verbatim>\<open>name || connector\<close>: a string, or the
  connector itself.
\<close>

record PrunedConfig =
  p_browserslist :: "string list option"
  p_connector :: "Connector option"
  p_extends :: "string list option"
  p_formatters :: "string list option"
  p_hints :: "(string \<times> string) list option"
  p_hintsTimeout :: "int option"
  p_language :: "string option"
  p_parsers :: "string list option"

datatype telemetry_event =
    CliTelemetry
  | CliAnalyze bool "bool option" PrunedConfig
  | CliMissing "string list"
  | CliIncompatible "string list"

datatype event =
    Log message
  | GetUserConfig "string option"
  | Ask question bool
  | AskThrew question exn
  | Install "string list" bool
  | CreateAnalyzer UserConfig CreateAnalyzerOptions
  | TrackEvent telemetry_event
  | TelemetryEnable
  | TelemetryDisable
  | StoreGet string
  | StoreSet string bool
  | SpinnerStart
  | SpinnerText string
  | SpinnerSucceed
  | SpinnerFail
  | Analyze "URL list"
  | Format "Problem list" string int int

subsection \<open>The environment and the world\<close>

text \<open>
  The environment holds what the run cannot change: the CI flag and the answers of the
  collaborators. The \<open>i\<close>-th call of a collaborator with argument \<open>x\<close> answers
  \<open>f i x\<close>, so an answer may depend on everything that happened before.
  \<^verbatim>\<open>getAsUris\<close>, \<^verbatim>\<open>getUserConfig\<close>, \<^verbatim>\<open>osLocale\<close>, \<^verbatim>\<open>mergeEnvWithOptions\<close>,
  \<^verbatim>\<open>getHintsFromConfiguration\<close> and \<^verbatim>\<open>normalizeHints\<close> are imported helpers, taken as
  parameters.
\<close>

record env =
  isCI :: bool
  getAsUris :: "string list \<Rightarrow> URL list"
  getUserConfig :: "string option \<Rightarrow> UserConfig option"
  osLocale :: string
  mergeEnvWithOptions :: "UserConfig \<Rightarrow> UserConfig"
  getHintsFromConfiguration :: "UserConfig \<Rightarrow> HintsConfig option"
  normalizeHints :: "HintsConfig \<Rightarrow> (string \<times> HintConfig) list"
  answers :: "nat \<Rightarrow> question \<Rightarrow> exn + bool"
  install_results :: "nat \<Rightarrow> string list \<Rightarrow> bool"
  constructions :: "nat \<Rightarrow> UserConfig \<Rightarrow> CreateAnalyzerOptions \<Rightarrow> exn + Analyzer"

text \<open>
  Modelled from the spec: the persistent store \<^verbatim>\<open>configStore\<close> and the telemetry handle
  \<^verbatim>\<open>appInsights\<close> (\<^verbatim>\<open>@hint/utils\<close>, not in the sources at hand). The store is a durable
  key-value map; the consent is unset (never asked), or recorded as enabled or disabled.
\<close>

record world =
  configStore :: "string \<rightharpoonup> bool"
  telemetry :: "bool option"
  asked :: nat
  installs :: nat
  created :: nat
  trace :: "event list"

definition emit :: "event \<Rightarrow> world \<Rightarrow> world" where
  "emit e w = w\<lparr>trace := trace w @ [e]\<rparr>"

definition askQuestion :: "env \<Rightarrow> question \<Rightarrow> world \<Rightarrow> (exn + bool) \<times> world" where
  "askQuestion en q w =
     (case answers en (asked w) q of
        Inl e \<Rightarrow> (Inl e, emit (AskThrew q e) (w\<lparr>asked := Suc (asked w)\<rparr>))
      | Inr a \<Rightarrow> (Inr a, emit (Ask q a) (w\<lparr>asked := Suc (asked w)\<rparr>)))"

definition installPackages :: "env \<Rightarrow> string list \<Rightarrow> world \<Rightarrow> bool \<times> world" where
  "installPackages en pkgs w =
     (let r = install_results en (installs w) pkgs
      in (r, emit (Install pkgs r) (w\<lparr>installs := Suc (installs w)\<rparr>)))"

definition createAnalyzer ::
  "env \<Rightarrow> UserConfig \<Rightarrow> CreateAnalyzerOptions \<Rightarrow> world \<Rightarrow> (exn + Analyzer) \<times> world" where
  "createAnalyzer en userConfig options w =
     (constructions en (created w) userConfig options,
      emit (CreateAnalyzer userConfig options) (w\<lparr>created := Suc (created w)\<rparr>))"

definition appInsights_isConfigured :: "world \<Rightarrow> bool" where
  "appInsights_isConfigured w = (telemetry w \<noteq> None)"

definition appInsights_isEnabled :: "world \<Rightarrow> bool" where
  "appInsights_isEnabled w = (telemetry w = Some True)"

definition appInsights_enable :: "world \<Rightarrow> world" where
  "appInsights_enable w = emit TelemetryEnable (w\<lparr>telemetry := Some True\<rparr>)"

definition appInsights_disable :: "world \<Rightarrow> world" where
  "appInsights_disable w = emit TelemetryDisable (w\<lparr>telemetry := Some False\<rparr>)"

definition configStore_get :: "string \<Rightarrow> world \<Rightarrow> bool option \<times> world" where
  "configStore_get k w = (configStore w k, emit (StoreGet k) w)"

definition configStore_set :: "string \<Rightarrow> bool \<Rightarrow> world \<Rightarrow> world" where
  "configStore_set k v w = emit (StoreSet k v) (w\<lparr>configStore := (configStore w)(k \<mapsto> v)\<rparr>)"

definition alreadyRunKey :: string where
  "alreadyRunKey = ''run''"

section \<open>Telemetry gate\<close>

text \<open>
  \<^verbatim>\<open>getHintsForTelemetry\<close>: the loop over \<^verbatim>\<open>Object.entries(normalizedHints)\<close> assigns
  \<^verbatim>\<open>result[hintId]\<close>; an assignment to a key already present replaces its value in place.
\<close>

definition hintSeverity :: "HintConfig \<Rightarrow> string" where
  "hintSeverity c = (case c of HintSeverity s \<Rightarrow> s | HintSeverityOptions s opts \<Rightarrow> s)"

definition getHintsForTelemetry :: "env \<Rightarrow> HintsConfig option \<Rightarrow> (string \<times> string) list option" where
  "getHintsForTelemetry en hs =
     (case hs of
        None \<Rightarrow> None
      | Some h \<Rightarrow>
          Some (foldl (\<lambda>result (hintId, sev). AList.update hintId (hintSeverity sev) result)
                  [] (normalizeHints en h)))"

definition pruneUserConfig :: "env \<Rightarrow> UserConfig \<Rightarrow> PrunedConfig" where
  "pruneUserConfig en userConfig =
     \<lparr> p_browserslist = browserslist userConfig,
       p_connector =
         (case connector userConfig of
            None \<Rightarrow> None
          | Some (ConnectorName s) \<Rightarrow> (if s = [] then None else Some (ConnectorName s))
          | Some (ConnectorConfig n opts) \<Rightarrow>
              (if n \<noteq> [] then Some (ConnectorName n) else Some (ConnectorConfig n opts))),
       p_extends = extends userConfig,
       p_formatters = formatters userConfig,
       p_hints = getHintsForTelemetry en (getHintsFromConfiguration en userConfig),
       p_hintsTimeout = hintsTimeout userConfig,
       p_language = language userConfig,
       p_parsers = parsers userConfig \<rparr>"

definition askForTelemetryConfirmation :: "env \<Rightarrow> world \<Rightarrow> (exn + bool) \<times> world" where
  "askForTelemetryConfirmation en w =
     (let w1 = emit (Log TelemetryMessage) w
      in case askQuestion en TelemetryQuestion w1 of
           (Inl e, w2) \<Rightarrow> (Inl e, w2)
         | (Inr telemetryEnabled, w2) \<Rightarrow>
             (Inr telemetryEnabled,
              if telemetryEnabled then appInsights_enable w2 else appInsights_disable w2))"

text \<open>The result is the exception the step ends with, if any.\<close>

definition sendTelemetryIfEnabled :: "env \<Rightarrow> UserConfig \<Rightarrow> world \<Rightarrow> exn option \<times> world" where
  "sendTelemetryIfEnabled en userConfig w =
     (let telemetryConfigured = appInsights_isConfigured w;
          telemetryEnabled0 = appInsights_isEnabled w;
          (alreadyRun, w1) = configStore_get alreadyRunKey w;
          w2 = (if alreadyRun \<noteq> Some True then configStore_set alreadyRunKey True w1 else w1)
      in case
           (if \<not> telemetryConfigured then
              (if isCI en then (Inr False, emit (Log CITelemetryMessage) w2)
               else if alreadyRun = Some True then
                 (case askForTelemetryConfirmation en w2 of
                    (Inl e, w') \<Rightarrow> (Inl e, w')
                  | (Inr enabled, w') \<Rightarrow>
                      (Inr enabled, if enabled then emit (TrackEvent CliTelemetry) w' else w'))
               else (Inr telemetryEnabled0, w2))
            else (Inr telemetryEnabled0, w2)) of
           (Inl e, w3) \<Rightarrow> (Some e, w3)
         | (Inr telemetryEnabled, w3) \<Rightarrow>
             (if \<not> telemetryEnabled then (None, w3)
              else (None,
                    emit (TrackEvent (CliAnalyze (isCI en) alreadyRun (pruneUserConfig en userConfig)))
                      w3)))"

section \<open>Configuration resolver\<close>

definition areFiles :: "URL list \<Rightarrow> bool" where
  "areFiles targets = list_all (\<lambda>target. protocol target = ''file:'') targets"

definition anyFile :: "URL list \<Rightarrow> bool" where
  "anyFile targets = list_ex (\<lambda>target. protocol target = ''file:'') targets"

definition emptyConfig :: UserConfig where
  "emptyConfig =
     \<lparr> browserslist = None, connector = None, extends = None, formatters = None,
       hints = None, hintsTimeout = None, language = None, parsers = None \<rparr>"

definition mixedTargetsError :: exn where
  "mixedTargetsError = Error ''You cannot mix file system with urls in the analysis''"

definition getDefaultConfiguration :: "env \<Rightarrow> URL list \<Rightarrow> world \<Rightarrow> (exn + UserConfig) \<times> world" where
  "getDefaultConfiguration en targets w =
     (let w1 = emit (Log DefaultMessage) w;
          targetsAreFiles = areFiles targets
      in if \<not> targetsAreFiles \<and> anyFile targets then (Inl mixedTargetsError, w1)
         else
           (let ext = (if targetsAreFiles then ''development'' else ''web-recommended'');
                config = emptyConfig\<lparr>extends := Some [ext]\<rparr>
            in (Inr (if isCI en then config\<lparr>formatters := Some [''html'', ''stylish'']\<rparr> else config),
                w1)))"

definition askUserToUseDefaultConfiguration ::
  "env \<Rightarrow> URL list \<Rightarrow> world \<Rightarrow> (exn + UserConfig option) \<times> world" where
  "askUserToUseDefaultConfiguration en targets w =
     (case askQuestion en DefaultConfigurationQuestion w of
        (Inl e, w1) \<Rightarrow> (Inl e, w1)
      | (Inr confirmation, w1) \<Rightarrow>
          (if confirmation then
             (case getDefaultConfiguration en targets w1 of
                (Inl e, w2) \<Rightarrow> (Inl e, w2)
              | (Inr config, w2) \<Rightarrow> (Inr (Some config), w2))
           else (Inr None, w1)))"

definition showMissingAndIncompatiblePackages :: "HintResources \<Rightarrow> world \<Rightarrow> world" where
  "showMissingAndIncompatiblePackages resources w =
     (let w1 = (if length (missing resources) > 0
                then emit (Log (MissingPackages (missing resources))) w else w)
      in if length (incompatible resources) > 0
         then emit (Log (IncompatiblePackages (incompatible resources))) w1 else w1)"

definition askUserToInstallDependencies ::
  "env \<Rightarrow> HintResources \<Rightarrow> world \<Rightarrow> (exn + bool) \<times> world" where
  "askUserToInstallDependencies en resources w =
     (let w1 = showMissingAndIncompatiblePackages resources w;
          dependencies = incompatible resources @ missing resources
      in askQuestion en (InstallDependenciesQuestion dependencies) w1)"

text \<open>A string is truthy in JavaScript when it is not empty.\<close>

definition truthy :: "string option \<Rightarrow> bool" where
  "truthy s = (case s of None \<Rightarrow> False | Some t \<Rightarrow> t \<noteq> [])"

definition getLanguage :: "env \<Rightarrow> UserConfig \<Rightarrow> CLIOptions \<Rightarrow> string" where
  "getLanguage en userConfig actions =
     (if truthy (cli_language actions) then the (cli_language actions)
      else if truthy (language userConfig) then the (language userConfig)
      else osLocale en)"

definition loadUserConfig :: "env \<Rightarrow> CLIOptions \<Rightarrow> URL list \<Rightarrow> world \<Rightarrow> (exn + UserConfig) \<times> world" where
  "loadUserConfig en actions targets w =
     (case (case getUserConfig en (cli_config actions) of
              None \<Rightarrow> getDefaultConfiguration en targets (emit (GetUserConfig (cli_config actions)) w)
            | Some userConfig \<Rightarrow> (Inr userConfig, emit (GetUserConfig (cli_config actions)) w)) of
        (Inl e, w1) \<Rightarrow> (Inl e, w1)
      | (Inr userConfig, w1) \<Rightarrow>
          (Inr (mergeEnvWithOptions en
                  (userConfig\<lparr>language := Some (getLanguage en userConfig actions)\<rparr>)), w1))"

section \<open>Analyzer bootstrap\<close>

text \<open>
  The package names handed to the installer; an incompatible package is installed at its latest
  version.
\<close>

definition missingPackages :: "HintResources \<Rightarrow> string list" where
  "missingPackages resources = map (\<lambda>name. ''@hint/'' @ name) (missing resources)"

definition incompatiblePackages :: "HintResources \<Rightarrow> string list" where
  "incompatiblePackages resources = map (\<lambda>name. ''@hint/'' @ name @ ''@latest'') (incompatible resources)"

definition askToInstallPackages ::
  "env \<Rightarrow> HintResources \<Rightarrow> world \<Rightarrow> (exn + bool) \<times> world" where
  "askToInstallPackages en resources w =
     (let w1 = (if length (missing resources) > 0
                then emit (TrackEvent (CliMissing (missing resources))) w else w);
          w2 = (if length (incompatible resources) > 0
                then emit (TrackEvent (CliIncompatible (incompatible resources))) w1 else w1)
      in case askUserToInstallDependencies en resources w2 of
           (Inl e, w3) \<Rightarrow> (Inl e, w3)
         | (Inr answer, w3) \<Rightarrow>
             (if \<not> answer then (Inr False, w3)
              else
                (let (installedMissing, w4) = installPackages en (missingPackages resources) w3
                 in if \<not> installedMissing then (Inr False, w4)
                    else
                      (let (installedIncompatible, w5) =
                             installPackages en (incompatiblePackages resources) w4
                       in if \<not> installedIncompatible then (Inr False, w5) else (Inr True, w5)))))"

text \<open>
  \<^verbatim>\<open>getAnalyzer\<close> calls itself after a recovery and nothing bounds the number of calls, so a
  call that never returns has the value \<open>None\<close>.
\<close>

partial_function (option) getAnalyzer ::
  "env \<Rightarrow> UserConfig \<Rightarrow> CreateAnalyzerOptions \<Rightarrow> URL list \<Rightarrow> world \<Rightarrow> ((exn + Analyzer) \<times> world) option"
where
  "getAnalyzer en userConfig options targets w =
     (case createAnalyzer en userConfig options w of
        (Inr webhint, w1) \<Rightarrow> Some (Inr webhint, w1)
      | (Inl e, w1) \<Rightarrow>
          (case e of
             AnalyzerErr ConfigurationError \<Rightarrow>
               (case askUserToUseDefaultConfiguration en targets w1 of
                  (Inl e', w2) \<Rightarrow> Some (Inl e', w2)
                | (Inr None, w2) \<Rightarrow> Some (Inl e, w2)
                | (Inr (Some config), w2) \<Rightarrow> getAnalyzer en config options targets w2)
           | AnalyzerErr (ResourceError resources) \<Rightarrow>
               (case askToInstallPackages en resources w1 of
                  (Inl e', w2) \<Rightarrow> Some (Inl e', w2)
                | (Inr installed, w2) \<Rightarrow>
                    (if \<not> installed then Some (Inl e, w2)
                     else getAnalyzer en userConfig options targets w2))
           | AnalyzerErr (HintError invalidHints) \<Rightarrow>
               Some (Inl e, emit (Log (InvalidHints invalidHints)) w1)
           | AnalyzerErr ConnectorError \<Rightarrow>
               Some (Inl e, emit (Log InvalidConnector) w1)
           | Error m \<Rightarrow> Some (Inl e, emit (Log (ErrorMessage e)) w1)))"

declare getAnalyzer.simps [code]

fun split_on :: "char \<Rightarrow> string \<Rightarrow> string list" where
  "split_on c [] = [[]]"
| "split_on c (x # xs) =
     (if x = c then [] # split_on c xs
      else (case split_on c xs of [] \<Rightarrow> [[x]] | y # ys \<Rightarrow> (x # y) # ys))"

definition actionsToOptions :: "CLIOptions \<Rightarrow> CreateAnalyzerOptions" where
  "actionsToOptions actions =
     \<lparr> opt_formatters =
         (if truthy (cli_formatters actions)
          then Some (split_on CHR '','' (the (cli_formatters actions))) else None),
       opt_hints =
         (if truthy (cli_hints actions)
          then Some (split_on CHR '','' (the (cli_hints actions))) else None),
       opt_watch = cli_watch actions \<rparr>"

section \<open>Run and progress reporter\<close>

text \<open>The local variables of the run: the start-time map and the exit code.\<close>

record run_state =
  scanStart :: "string \<rightharpoonup> int"
  exitCode :: nat

definition endSpinner :: "CLIOptions \<Rightarrow> event \<Rightarrow> world \<Rightarrow> world" where
  "endSpinner actions method w = (if \<not> cli_debug actions then emit method w else w)"

definition hasError :: "Problem list \<Rightarrow> bool" where
  "hasError reports = list_ex (\<lambda>result. severity result = Severity_error) reports"

text \<open>
  \<^verbatim>\<open>print\<close> hands the findings to the formatters: the event keeps the findings, the
  target, the scan time and the start time the date is made of.
\<close>

definition print :: "Problem list \<Rightarrow> string \<Rightarrow> int \<Rightarrow> int \<Rightarrow> world \<Rightarrow> world" where
  "print reports target scanTime date w = emit (Format reports target scanTime date) w"

definition updateCallback :: "CLIOptions \<Rightarrow> string \<Rightarrow> run_state \<times> world \<Rightarrow> run_state \<times> world" where
  "updateCallback actions msg rw =
     (case rw of (rs, w) \<Rightarrow> (rs, if \<not> cli_debug actions then emit (SpinnerText msg) w else w))"

definition targetStartCallback ::
  "CLIOptions \<Rightarrow> string \<Rightarrow> int \<Rightarrow> run_state \<times> world \<Rightarrow> run_state \<times> world" where
  "targetStartCallback actions url now rw =
     (case rw of (rs, w) \<Rightarrow>
        (rs\<lparr>scanStart := (scanStart rs)(url \<mapsto> now)\<rparr>,
         if \<not> cli_debug actions then emit SpinnerStart w else w))"

text \<open>\<^verbatim>\<open>scanStart.get(end.url) || 0\<close>: an absent entry and a zero entry both give zero.\<close>

definition startOf :: "run_state \<Rightarrow> string \<Rightarrow> int" where
  "startOf rs url = (case scanStart rs url of None \<Rightarrow> 0 | Some t \<Rightarrow> (if t = 0 then 0 else t))"

definition targetEndCallback ::
  "CLIOptions \<Rightarrow> string \<Rightarrow> int \<Rightarrow> Problem list \<Rightarrow> run_state \<times> world \<Rightarrow> run_state \<times> world" where
  "targetEndCallback actions url now problems rw =
     (case rw of (rs, w) \<Rightarrow>
        (let scanEnd = now;
             start = startOf rs url;
             rs1 = (if hasError problems then rs\<lparr>exitCode := 1\<rparr> else rs);
             w1 = endSpinner actions (if exitCode rs1 \<noteq> 0 then SpinnerFail else SpinnerSucceed) w
         in (rs1, print problems url (scanEnd - start) start w1)))"

fun callback :: "CLIOptions \<Rightarrow> engine_step \<Rightarrow> run_state \<times> world \<Rightarrow> run_state \<times> world" where
  "callback actions (TargetStart url now) rw = targetStartCallback actions url now rw"
| "callback actions (Update msg) rw = updateCallback actions msg rw"
| "callback actions (TargetEnd url now problems) rw = targetEndCallback actions url now problems rw"

text \<open>
  \<^verbatim>\<open>webhint.analyze(targets, getAnalyzeOptions())\<close>: the engine makes its hook calls; the
  result is the exception the call ends with, if it ends, and the state the hooks have left.
\<close>

definition webhint_analyze ::
  "CLIOptions \<Rightarrow> Analyzer \<Rightarrow> URL list \<Rightarrow> run_state \<times> world \<Rightarrow> exn option \<times> run_state \<times> world" where
  "webhint_analyze actions webhint targets rw =
     (case rw of (rs, w) \<Rightarrow>
        (failure webhint, foldl (\<lambda>st step. callback actions step st) (rs, emit (Analyze targets) w)
                            (script webhint)))"

text \<open>
  The part of the exported function after the analyzer is ready. The \<^verbatim>\<open>try\<close> encloses the
  analyze call and the telemetry step: an exception of either sets the exit code, ends the
  spinner as failed, and is swallowed. An analyze call that never settles leaves the function
  waiting: \<open>None\<close>.
\<close>

definition run ::
  "env \<Rightarrow> CLIOptions \<Rightarrow> UserConfig \<Rightarrow> Analyzer \<Rightarrow> URL list \<Rightarrow> world \<Rightarrow> (bool \<times> world) option" where
  "run en actions userConfig webhint targets w =
     (if hangs webhint then None
      else
        Some (case webhint_analyze actions webhint targets
                     (\<lparr>scanStart = Map.empty, exitCode = 0\<rparr>, w) of
                (None, rs, w1) \<Rightarrow>
                  (case sendTelemetryIfEnabled en userConfig w1 of
                     (None, w2) \<Rightarrow> (exitCode rs = 0, w2)
                   | (Some e, w2) \<Rightarrow> (False, endSpinner actions SpinnerFail w2))
              | (Some e, rs, w1) \<Rightarrow> (False, endSpinner actions SpinnerFail w1)))"

text \<open>
  The exported function. A rejected promise (an exception of \<^verbatim>\<open>loadUserConfig\<close>) is
  \<open>Inl\<close>; \<open>None\<close> is a bootstrap or an analyze call that never returns.
\<close>

definition analyze :: "env \<Rightarrow> CLIOptions \<Rightarrow> world \<Rightarrow> ((exn + bool) \<times> world) option" where
  "analyze en actions w =
     (let targets = getAsUris en (underscore actions)
      in if length targets = 0 then Some (Inr False, w)
         else
           (case loadUserConfig en actions targets w of
              (Inl e, w1) \<Rightarrow> Some (Inl e, w1)
            | (Inr userConfig, w1) \<Rightarrow>
                (case getAnalyzer en userConfig (actionsToOptions actions) targets w1 of
                   None \<Rightarrow> None
                 | Some (Inl e, w2) \<Rightarrow> Some (Inr False, w2)
                 | Some (Inr webhint, w2) \<Rightarrow>
                     (case run en actions userConfig webhint targets w2 of
                        None \<Rightarrow> None
                      | Some (ok, w3) \<Rightarrow> Some (Inr ok, w3)))))"

section \<open>Observations and concrete runs\<close>

text \<open>The events a step has appended to the trace.\<close>

definition added :: "world \<Rightarrow> world \<Rightarrow> event list" where
  "added w w' = drop (length (trace w)) (trace w')"

definition isAsk :: "event \<Rightarrow> bool" where
  "isAsk e = (case e of Ask q a \<Rightarrow> True | AskThrew q x \<Rightarrow> True | _ \<Rightarrow> False)"

text \<open>
  A concrete environment: not under CI, no configuration file, every question answered yes,
  every installation successful, every construction successful with an engine that reports
  nothing. The concrete runs below vary it.
\<close>

definition env0 :: env where
  "env0 =
     \<lparr> isCI = False,
       getAsUris = map (\<lambda>s. \<lparr>protocol = takeWhile (\<lambda>c. c \<noteq> CHR ''/'') s, href = s\<rparr>),
       getUserConfig = (\<lambda>p. None),
       osLocale = ''en'',
       mergeEnvWithOptions = (\<lambda>c. c),
       getHintsFromConfiguration = hints,
       normalizeHints = (\<lambda>h. case h of HintsConfigObject kvs \<Rightarrow> kvs | HintsConfigArray js \<Rightarrow> []),
       answers = (\<lambda>i q. Inr True),
       install_results = (\<lambda>i p. True),
       constructions = (\<lambda>i c opts. Inr \<lparr>script = [], failure = None, hangs = False\<rparr>) \<rparr>"

text \<open>The world of a first-ever invocation, and of a later one.\<close>

definition world0 :: world where
  "world0 =
     \<lparr> configStore = Map.empty, telemetry = None, asked = 0, installs = 0, created = 0,
       trace = [] \<rparr>"

definition world1 :: world where
  "world1 = world0\<lparr>configStore := [alreadyRunKey \<mapsto> True]\<rparr>"

definition actions0 :: CLIOptions where
  "actions0 =
     \<lparr> underscore = [], cli_config = None, cli_debug = False, cli_formatters = None,
       cli_hints = None, cli_language = None, cli_output = None, cli_watch = None \<rparr>"

text \<open>
  The start times recorded for a target by a sequence of hook calls, in order, and the target's
  own start: the last one recorded, zero when there is none.
\<close>

definition recordedStarts :: "engine_step list \<Rightarrow> string \<Rightarrow> int list" where
  "recordedStarts steps url =
     concat (map (\<lambda>step. case step of TargetStart u t \<Rightarrow> (if u = url then [t] else []) | _ \<Rightarrow> []) steps)"

definition ownStart :: "engine_step list \<Rightarrow> string \<Rightarrow> int" where
  "ownStart steps url = (if recordedStarts steps url = [] then 0 else last (recordedStarts steps url))"

text \<open>The reports handed to the formatters by the hook calls of a script.\<close>

definition isFormat :: "event \<Rightarrow> bool" where
  "isFormat e = (case e of Format ps u t d \<Rightarrow> True | _ \<Rightarrow> False)"

definition reported :: "CLIOptions \<Rightarrow> engine_step list \<Rightarrow> world \<Rightarrow> event list" where
  "reported actions steps w =
     filter isFormat (added w (snd (snd (webhint_analyze actions \<lparr>script = steps, failure = None, hangs = False\<rparr> []
        (\<lparr>scanStart = Map.empty, exitCode = 0\<rparr>, w)))))"

text \<open>
  Classes of events: accesses to the persistent store, the run-summary telemetry event, calls on
  the spinner, what the configuration resolver and the bootstrap can emit, and what the progress
  hooks can emit (the spinner calls only outside debug mode).
\<close>

definition isStoreEvent :: "event \<Rightarrow> bool" where
  "isStoreEvent e = (case e of StoreGet k \<Rightarrow> True | StoreSet k v \<Rightarrow> True | _ \<Rightarrow> False)"

definition isRunOutcome :: "event \<Rightarrow> bool" where
  "isRunOutcome e = (case e of TrackEvent (CliAnalyze ci prev cfg) \<Rightarrow> True | _ \<Rightarrow> False)"

definition isSpinner :: "event \<Rightarrow> bool" where
  "isSpinner e =
     (case e of SpinnerStart \<Rightarrow> True | SpinnerText s \<Rightarrow> True | SpinnerSucceed \<Rightarrow> True
      | SpinnerFail \<Rightarrow> True | _ \<Rightarrow> False)"

definition isBootstrapEvent :: "event \<Rightarrow> bool" where
  "isBootstrapEvent e =
     (case e of
        Log m \<Rightarrow> True
      | GetUserConfig path \<Rightarrow> True
      | Ask q a \<Rightarrow> True
      | AskThrew q x \<Rightarrow> True
      | Install pkgs r \<Rightarrow> True
      | CreateAnalyzer c opts \<Rightarrow> True
      | TrackEvent te \<Rightarrow> (case te of CliMissing ms \<Rightarrow> True | CliIncompatible ms \<Rightarrow> True | _ \<Rightarrow> False)
      | _ \<Rightarrow> False)"

definition isReportEvent :: "bool \<Rightarrow> event \<Rightarrow> bool" where
  "isReportEvent dbg e =
     (case e of
        Analyze ts \<Rightarrow> True
      | Format fs u st d \<Rightarrow> True
      | SpinnerStart \<Rightarrow> \<not> dbg
      | SpinnerText s \<Rightarrow> \<not> dbg
      | SpinnerSucceed \<Rightarrow> \<not> dbg
      | SpinnerFail \<Rightarrow> \<not> dbg
      | _ \<Rightarrow> False)"

text \<open>
  \<open>grows Q w w'\<close>: from \<open>w\<close> to \<open>w'\<close> the trace was extended by events of class
  \<open>Q\<close> only, and neither the persistent store nor the recorded consent changed.
\<close>

definition grows :: "(event \<Rightarrow> bool) \<Rightarrow> world \<Rightarrow> world \<Rightarrow> bool" where
  "grows Q w w' \<longleftrightarrow>
     configStore w' = configStore w \<and> telemetry w' = telemetry w \<and>
     (\<exists>evs. trace w' = trace w @ evs \<and> list_all Q evs)"

text \<open>
  An end event that carries at least one finding of severity \<open>error\<close>; an analyzer one of
  whose targets produces such a finding.
\<close>

definition endHasError :: "engine_step \<Rightarrow> bool" where
  "endHasError step =
     (case step of
        TargetEnd u t ps \<Rightarrow> list_ex (\<lambda>finding. severity finding = Severity_error) ps
      | _ \<Rightarrow> False)"

definition producedError :: "Analyzer \<Rightarrow> bool" where
  "producedError webhint = list_ex endHasError (script webhint)"

text \<open>
  The analyzer a run gets ready, if any: none with zero targets, when the configuration cannot
  be loaded, or when the bootstrap ends with an error (or never ends).
\<close>

definition readyAnalyzer :: "env \<Rightarrow> CLIOptions \<Rightarrow> world \<Rightarrow> Analyzer option" where
  "readyAnalyzer en actions w =
     (let targets = getAsUris en (underscore actions)
      in if length targets = 0 then None
         else
           (case loadUserConfig en actions targets w of
              (Inl e, w1) \<Rightarrow> None
            | (Inr userConfig, w1) \<Rightarrow>
                (case getAnalyzer en userConfig (actionsToOptions actions) targets w1 of
                   None \<Rightarrow> None
                 | Some (Inl e, w2) \<Rightarrow> None
                 | Some (Inr webhint, w2) \<Rightarrow> Some webhint)))"

text \<open>
  The telemetry gate reads the first-run marker once per invocation and nothing else reads it,
  so the reads of the marker in a trace count the invocations of the gate.
\<close>

definition gateCalls :: "event list \<Rightarrow> nat" where
  "gateCalls evs = length (filter (\<lambda>e. e = StoreGet alreadyRunKey) evs)"

text \<open>The world after the hook calls of the engine.\<close>

definition afterHooks :: "CLIOptions \<Rightarrow> Analyzer \<Rightarrow> URL list \<Rightarrow> world \<Rightarrow> world" where
  "afterHooks actions webhint targets w =
     snd (snd (webhint_analyze actions webhint targets (\<lparr>scanStart = Map.empty, exitCode = 0\<rparr>, w)))"

text \<open>
  The exception the telemetry step of a run ends with: none when the run does not reach the step
  or the step returns.
\<close>

definition telemetryOutcome :: "env \<Rightarrow> CLIOptions \<Rightarrow> world \<Rightarrow> exn option" where
  "telemetryOutcome en actions w =
     (let targets = getAsUris en (underscore actions)
      in if length targets = 0 then None
         else
           (case loadUserConfig en actions targets w of
              (Inl e, w1) \<Rightarrow> None
            | (Inr userConfig, w1) \<Rightarrow>
                (case getAnalyzer en userConfig (actionsToOptions actions) targets w1 of
                   None \<Rightarrow> None
                 | Some (Inl e, w2) \<Rightarrow> None
                 | Some (Inr webhint, w2) \<Rightarrow>
                     (if failure webhint = None \<and> \<not> hangs webhint
                      then fst (sendTelemetryIfEnabled en userConfig
                                  (afterHooks actions webhint targets w2))
                      else None))))"

text \<open>What a run can emit before it reaches the telemetry step.\<close>

definition isRunEvent :: "bool \<Rightarrow> event \<Rightarrow> bool" where
  "isRunEvent dbg e \<longleftrightarrow> isBootstrapEvent e \<or> isReportEvent dbg e"

text \<open>
  Concrete runs on one remote target: an engine that reports one error among warnings, one that
  reports no error, one that throws, and a construction that fails with a hint error.
\<close>

definition problem :: "Severity \<Rightarrow> Problem" where
  "problem s = \<lparr>severity = s, message = ''finding''\<rparr>"

definition analyzerErr :: Analyzer where
  "analyzerErr =
     \<lparr> script = [TargetStart ''https://a.example/'' 10,
                 TargetEnd ''https://a.example/'' 25
                   [problem Severity_warning, problem Severity_error, problem Severity_warning]],
       failure = None, hangs = False \<rparr>"

definition analyzerWarn :: Analyzer where
  "analyzerWarn =
     \<lparr> script = [TargetStart ''https://a.example/'' 10,
                 TargetEnd ''https://a.example/'' 25 [problem Severity_warning, problem Severity_hint]],
       failure = None, hangs = False \<rparr>"

definition analyzerThrow :: Analyzer where
  "analyzerThrow =
     \<lparr> script = [TargetStart ''https://a.example/'' 10], failure = Some (Error ''boom''),
       hangs = False \<rparr>"

definition env_with :: "Analyzer \<Rightarrow> env" where
  "env_with a = env0\<lparr>constructions := (\<lambda>i c opts. Inr a)\<rparr>"

definition envHint :: env where
  "envHint = env0\<lparr>constructions := (\<lambda>i c opts. Inl (AnalyzerErr (HintError [''no-such-hint''])))\<rparr>"

definition actionsA :: CLIOptions where
  "actionsA = actions0\<lparr>underscore := [''https://a.example/'']\<rparr>"

definition actionsD :: CLIOptions where
  "actionsD = actionsA\<lparr>cli_debug := True\<rparr>"

text \<open>The worlds these runs end in.\<close>

definition configA :: UserConfig where
  "configA = emptyConfig\<lparr>extends := Some [''web-recommended''], language := Some ''en''\<rparr>"

definition bootA :: "event list" where
  "bootA = [GetUserConfig None, Log DefaultMessage, CreateAnalyzer configA (actionsToOptions actionsA)]"

definition targetsA :: "URL list" where
  "targetsA = [\<lparr>protocol = ''https:'', href = ''https://a.example/''\<rparr>]"

definition wHint :: world where
  "wHint = world0\<lparr>created := 1, trace := bootA @ [Log (InvalidHints [''no-such-hint''])]\<rparr>"

definition wThrow :: world where
  "wThrow = world0\<lparr>created := 1, trace := bootA @ [Analyze targetsA, SpinnerStart, SpinnerFail]\<rparr>"

definition wThrowDebug :: world where
  "wThrowDebug = world0\<lparr>created := 1, trace := bootA @ [Analyze targetsA]\<rparr>"

definition wWarn :: world where
  "wWarn = world0\<lparr>configStore := [alreadyRunKey \<mapsto> True], created := 1,
     trace := bootA @ [Analyze targetsA, SpinnerStart, SpinnerSucceed,
       Format [problem Severity_warning, problem Severity_hint] ''https://a.example/'' 15 10,
       StoreGet alreadyRunKey, StoreSet alreadyRunKey True]\<rparr>"

text \<open>
  A later run, not under CI and with no consent recorded, whose telemetry prompt throws (the
  terminal is closed); and an analyzer whose analyze call never settles.
\<close>

definition envPromptThrows :: env where
  "envPromptThrows = (env_with analyzerWarn)\<lparr>answers := (\<lambda>i q. Inl (Error ''prompt closed''))\<rparr>"

definition wPromptThrows :: world where
  "wPromptThrows = world1\<lparr>asked := 1, created := 1,
     trace := bootA @ [Analyze targetsA, SpinnerStart, SpinnerSucceed,
       Format [problem Severity_warning, problem Severity_hint] ''https://a.example/'' 15 10,
       StoreGet alreadyRunKey, Log TelemetryMessage,
       AskThrew TelemetryQuestion (Error ''prompt closed''), SpinnerFail]\<rparr>"

definition analyzerHang :: Analyzer where
  "analyzerHang =
     \<lparr> script = [TargetStart ''https://a.example/'' 10], failure = None, hangs = True \<rparr>"

text \<open>Installer calls and construction attempts in a trace.\<close>

definition isInstall :: "event \<Rightarrow> bool" where
  "isInstall e = (case e of Install pkgs r \<Rightarrow> True | _ \<Rightarrow> False)"

definition isCreate :: "event \<Rightarrow> bool" where
  "isCreate e = (case e of CreateAnalyzer c opts \<Rightarrow> True | _ \<Rightarrow> False)"

text \<open>
  Concrete bootstraps: a resource error on the first construction only, with installations that
  succeed and with a second installation that fails; a configuration error once, twice, and
  forever, each time with the default configuration accepted.
\<close>

definition resources0 :: HintResources where
  "resources0 = \<lparr>missing = [''hint-a'', ''parser-c''], incompatible = [''hint-b'']\<rparr>"

definition optionsA :: CreateAnalyzerOptions where
  "optionsA = \<lparr>opt_formatters = None, opt_hints = None, opt_watch = None\<rparr>"

definition envResource :: env where
  "envResource = env0\<lparr>constructions :=
     (\<lambda>i c opts. if i = 0 then Inl (AnalyzerErr (ResourceError resources0)) else Inr analyzerWarn)\<rparr>"

definition envInstallFails :: env where
  "envInstallFails = envResource\<lparr>install_results := (\<lambda>i pkgs. i = 0)\<rparr>"

definition recoveryEvents :: "bool \<Rightarrow> event list" where
  "recoveryEvents installedIncompatible =
     [CreateAnalyzer configA optionsA,
      TrackEvent (CliMissing [''hint-a'', ''parser-c'']), TrackEvent (CliIncompatible [''hint-b'']),
      Log (MissingPackages [''hint-a'', ''parser-c'']), Log (IncompatiblePackages [''hint-b'']),
      Ask (InstallDependenciesQuestion [''hint-b'', ''hint-a'', ''parser-c'']) True,
      Install [''@hint/hint-a'', ''@hint/parser-c''] True,
      Install [''@hint/hint-b@latest''] installedIncompatible]"

definition wInstalled :: world where
  "wInstalled = world0\<lparr>asked := 1, installs := 2, created := 2,
     trace := recoveryEvents True @ [CreateAnalyzer configA optionsA]\<rparr>"

definition wInstallFailed :: world where
  "wInstallFailed = world0\<lparr>asked := 1, installs := 2, created := 1, trace := recoveryEvents False\<rparr>"

definition envInstallPromptThrows :: env where
  "envInstallPromptThrows = envResource\<lparr>answers := (\<lambda>i q. Inl (Error ''prompt closed''))\<rparr>"

definition wInstallPromptThrows :: world where
  "wInstallPromptThrows = world0\<lparr>asked := 1, created := 1,
     trace := take 5 (recoveryEvents True) @
       [AskThrew (InstallDependenciesQuestion [''hint-b'', ''hint-a'', ''parser-c''])
          (Error ''prompt closed'')]\<rparr>"

text \<open>The outcomes of a construction that the bootstrap tries to recover from.\<close>

definition recoverable :: "exn + Analyzer \<Rightarrow> bool" where
  "recoverable outcome =
     (case outcome of
        Inl (AnalyzerErr ConfigurationError) \<Rightarrow> True
      | Inl (AnalyzerErr (ResourceError resources)) \<Rightarrow> True
      | _ \<Rightarrow> False)"

text \<open>
  The configuration of the construction attempt number \<open>k\<close> of a bootstrap that starts with
  \<open>userConfig\<close> when \<open>c0\<close> constructions have been made, as long as every recovery before it
  succeeds: the default configuration \<open>dflt\<close> after a \<open>ConfigurationError\<close>, the same
  configuration after a \<open>ResourceError\<close>.
\<close>

fun tried ::
  "env \<Rightarrow> CreateAnalyzerOptions \<Rightarrow> UserConfig \<Rightarrow> UserConfig \<Rightarrow> nat \<Rightarrow> nat \<Rightarrow> UserConfig" where
  "tried en options dflt userConfig c0 0 = userConfig"
| "tried en options dflt userConfig c0 (Suc k) =
     (if constructions en (c0 + k) (tried en options dflt userConfig c0 k) options =
           Inl (AnalyzerErr ConfigurationError)
      then dflt else tried en options dflt userConfig c0 k)"

text \<open>A target list with a \<open>file:\<close> target and a target of another scheme.\<close>

definition mixed :: "URL list \<Rightarrow> bool" where
  "mixed targets \<longleftrightarrow>
     list_ex (\<lambda>target. protocol target = ''file:'') targets \<and>
     list_ex (\<lambda>target. protocol target \<noteq> ''file:'') targets"

definition envForever :: env where
  "envForever = env0\<lparr>constructions := (\<lambda>i c opts. Inl (AnalyzerErr ConfigurationError))\<rparr>"

definition envTwice :: env where
  "envTwice = env0\<lparr>constructions :=
     (\<lambda>i c opts. if i < 2 then Inl (AnalyzerErr ConfigurationError) else Inr analyzerWarn)\<rparr>"

text \<open>A boundary that accepts the default configuration for remote targets and no other.\<close>

definition envOnlyDefault :: env where
  "envOnlyDefault = env0\<lparr>constructions :=
     (\<lambda>i c opts. if extends c = Some [''web-recommended''] \<and> language c = None
                  then Inr analyzerWarn else Inl (AnalyzerErr ConfigurationError))\<rparr>"

definition envOnce :: env where
  "envOnce = env0\<lparr>constructions :=
     (\<lambda>i c opts. if i = 0 then Inl (AnalyzerErr ConfigurationError) else Inr analyzerWarn)\<rparr>"

definition defaultA :: UserConfig where
  "defaultA = emptyConfig\<lparr>extends := Some [''web-recommended'']\<rparr>"

definition wOnce :: world where
  "wOnce = world0\<lparr>created := 2, asked := 1,
     trace := [CreateAnalyzer configA optionsA,
               Ask DefaultConfigurationQuestion True, Log DefaultMessage,
               CreateAnalyzer defaultA optionsA]\<rparr>"

definition wTwice :: world where
  "wTwice = world0\<lparr>asked := 2, created := 3,
     trace := [CreateAnalyzer configA optionsA,
               Ask DefaultConfigurationQuestion True, Log DefaultMessage,
               CreateAnalyzer defaultA optionsA,
               Ask DefaultConfigurationQuestion True, Log DefaultMessage,
               CreateAnalyzer defaultA optionsA]\<rparr>"

text \<open>
  A run on a local and a remote target together, with and without a configuration file.
\<close>

definition envConfigured :: env where
  "envConfigured = env0\<lparr>getUserConfig := (\<lambda>p. Some emptyConfig)\<rparr>"

definition actionsMixed :: CLIOptions where
  "actionsMixed = actions0\<lparr>underscore := [''file:///site/index.html'', ''https://a.example/'']\<rparr>"

definition targetsMixed :: "URL list" where
  "targetsMixed = [\<lparr>protocol = ''file:'', href = ''file:///site/index.html''\<rparr>,
                   \<lparr>protocol = ''https:'', href = ''https://a.example/''\<rparr>]"













section \<open>Basic facts about the world\<close>

lemma trace_emit: "trace (emit e w) = trace w @ [e]"
  and configStore_emit: "configStore (emit e w) = configStore w"
  and telemetry_emit: "telemetry (emit e w) = telemetry w"
  and asked_emit: "asked (emit e w) = asked w"
  and installs_emit: "installs (emit e w) = installs w"
  and created_emit: "created (emit e w) = created w"
  by (simp_all add: emit_def)

lemmas emit_simps = trace_emit configStore_emit telemetry_emit asked_emit installs_emit created_emit

lemmas gate_defs = sendTelemetryIfEnabled_def askForTelemetryConfirmation_def askQuestion_def
  configStore_get_def configStore_set_def appInsights_isConfigured_def appInsights_isEnabled_def
  appInsights_enable_def appInsights_disable_def

section \<open>The telemetry gate on a first run\<close>

lemma gate_prompt_only_later:
  assumes "list_ex isAsk (added w (snd (sendTelemetryIfEnabled en userConfig w)))"
  shows "configStore w alreadyRunKey = Some True \<and> \<not> isCI en \<and> telemetry w = None"
proof (rule ccontr)
  assume "\<not> ?thesis"
  then have "\<not> list_ex isAsk (added w (snd (sendTelemetryIfEnabled en userConfig w)))"
    by (auto simp add: gate_defs Let_def emit_simps added_def isAsk_def
        split: if_splits sum.splits prod.splits)
  with assms show False by simp
qed

text \<open>
  Claim C6. On a first-ever invocation (the persisted \<open>alreadyRun\<close> is unset or false) the
  telemetry gate marks \<open>alreadyRun\<close> true and asks nothing, whatever the recorded consent is;
  a question is asked only on a run with \<open>alreadyRun\<close> already true that is not under CI
  (and only when no consent is recorded).
\<close>

theorem telemetry_gate_first_run:
  "(configStore w alreadyRunKey \<noteq> Some True \<longrightarrow>
      configStore (snd (sendTelemetryIfEnabled en userConfig w)) alreadyRunKey = Some True \<and>
      \<not> list_ex isAsk (added w (snd (sendTelemetryIfEnabled en userConfig w))) \<and>
      asked (snd (sendTelemetryIfEnabled en userConfig w)) = asked w) \<and>
   (list_ex isAsk (added w (snd (sendTelemetryIfEnabled en userConfig w))) \<longrightarrow>
      configStore w alreadyRunKey = Some True \<and> \<not> isCI en \<and> telemetry w = None)"
proof (intro conjI impI)
  assume first: "configStore w alreadyRunKey \<noteq> Some True"
  then show "configStore (snd (sendTelemetryIfEnabled en userConfig w)) alreadyRunKey = Some True"
    by (simp add: gate_defs Let_def emit_simps split: sum.splits prod.splits)
  from first show "\<not> list_ex isAsk (added w (snd (sendTelemetryIfEnabled en userConfig w)))"
    using gate_prompt_only_later by blast
  from first show "asked (snd (sendTelemetryIfEnabled en userConfig w)) = asked w"
    by (simp add: gate_defs Let_def emit_simps split: sum.splits prod.splits)
next
  assume "list_ex isAsk (added w (snd (sendTelemetryIfEnabled en userConfig w)))"
  then show "configStore w alreadyRunKey = Some True" "\<not> isCI en" "telemetry w = None"
    using gate_prompt_only_later by blast+
qed

theorem telemetry_gate_first_run_witness:
  "configStore world0 alreadyRunKey \<noteq> Some True \<and>
   configStore (snd (sendTelemetryIfEnabled env0 emptyConfig world0)) alreadyRunKey = Some True \<and>
   \<not> list_ex isAsk (added world0 (snd (sendTelemetryIfEnabled env0 emptyConfig world0))) \<and>
   list_ex isAsk (added world1 (snd (sendTelemetryIfEnabled env0 emptyConfig world1))) \<and>
   configStore world1 alreadyRunKey = Some True \<and> \<not> isCI env0"
proof -
  have a: "configStore world0 alreadyRunKey \<noteq> Some True"
    by (simp add: world0_def)
  have b: "list_ex isAsk (added world1 (snd (sendTelemetryIfEnabled env0 emptyConfig world1)))"
    by (simp add: gate_defs Let_def emit_simps added_def isAsk_def world1_def world0_def env0_def)
  from a b telemetry_gate_first_run [of world0 env0 emptyConfig]
    telemetry_gate_first_run [of world1 env0 emptyConfig]
  show ?thesis by blast
qed

section \<open>Per-target timing\<close>

lemmas hook_defs = targetStartCallback_def targetEndCallback_def updateCallback_def
  endSpinner_def print_def startOf_def

lemma scanStart_callback:
  "scanStart (fst (callback actions step (rs, w))) url =
     (case step of TargetStart u t \<Rightarrow> (if u = url then Some t else scanStart rs url)
      | _ \<Rightarrow> scanStart rs url)"
  by (cases step) (simp_all add: hook_defs Let_def)

lemma recordedStarts_Nil: "recordedStarts [] url = []"
  by (simp add: recordedStarts_def)

lemma recordedStarts_snoc:
  "recordedStarts (steps @ [step]) url =
     recordedStarts steps url @
       (case step of TargetStart u t \<Rightarrow> (if u = url then [t] else []) | _ \<Rightarrow> [])"
  by (simp add: recordedStarts_def)

lemma scanStart_foldl:
  "scanStart (fst (foldl (\<lambda>st step. callback actions step st) (rs, w) steps)) url =
     (if recordedStarts steps url = [] then scanStart rs url
      else Some (last (recordedStarts steps url)))"
proof (induction steps rule: rev_induct)
  case Nil
  show ?case by (simp add: recordedStarts_Nil)
next
  case (snoc step steps)
  obtain rs' w' where st: "foldl (\<lambda>st step. callback actions step st) (rs, w) steps = (rs', w')"
    by (cases "foldl (\<lambda>st step. callback actions step st) (rs, w) steps")
  from snoc st have ih: "scanStart rs' url =
     (if recordedStarts steps url = [] then scanStart rs url
      else Some (last (recordedStarts steps url)))" by simp
  have step_eq: "scanStart (fst (callback actions step (rs', w'))) url =
     (case step of TargetStart u t \<Rightarrow> (if u = url then Some t else scanStart rs' url)
      | _ \<Rightarrow> scanStart rs' url)"
    by (rule scanStart_callback)
  show ?case
    by (cases step) (simp_all add: st scanStart_callback ih recordedStarts_snoc del: callback.simps)
qed

lemma startOf_foldl:
  assumes "foldl (\<lambda>st step. callback actions step st) (\<lparr>scanStart = Map.empty, exitCode = 0\<rparr>, w) pre = (rs, w1)"
  shows "startOf rs url = ownStart pre url"
proof -
  from scanStart_foldl [of actions "\<lparr>scanStart = Map.empty, exitCode = 0\<rparr>" w pre url] assms
  have "scanStart rs url = (if recordedStarts pre url = [] then None else Some (last (recordedStarts pre url)))"
    by simp
  then show ?thesis by (simp add: startOf_def ownStart_def)
qed

lemma last_trace_targetEnd:
  "last (trace (snd (callback actions (TargetEnd url now ps) (rs, w1)))) =
     Format ps url (now - startOf rs url) (startOf rs url)"
  by (simp add: targetEndCallback_def print_def Let_def emit_simps)

lemma reported_two_targets:
  assumes "a \<noteq> b"
  shows "reported actions [TargetStart a ta, TargetStart b tb, TargetEnd b eb pb, TargetEnd a ea pa] w =
           [Format pb b (eb - tb) tb, Format pa a (ea - ta) ta]"
    and "reported actions [TargetStart b tb, TargetStart a ta, TargetEnd b eb pb, TargetEnd a ea pa] w =
           [Format pb b (eb - tb) tb, Format pa a (ea - ta) ta]"
    and "reported actions [TargetStart b tb, TargetEnd b eb pb, TargetStart a ta, TargetEnd a ea pa] w =
           [Format pb b (eb - tb) tb, Format pa a (ea - ta) ta]"
  using assms
  by (simp_all add: reported_def webhint_analyze_def hook_defs Let_def emit_simps added_def isFormat_def)

text \<open>
  Claim C7. The reporter keeps a start-time map keyed by the target's URL string. The start hook
  records the time of the call under the target's URL and leaves the entries of the other
  targets alone. The end hook of a target, after any sequence of hook calls, reports the elapsed
  time from that target's own start (the last start recorded for its URL, zero when none was
  recorded) and that start. For two targets \<open>a\<close> and \<open>b\<close> whose end events arrive in
  the order \<open>b\<close>, \<open>a\<close>, in each of the three possible interleavings with their starts,
  each report carries the target's own start time.
\<close>

theorem reporter_own_start:
  "scanStart (fst (targetStartCallback actions url now (rs', w'))) url = Some now \<and>
   (u \<noteq> url \<longrightarrow> scanStart (fst (targetStartCallback actions url now (rs', w'))) u = scanStart rs' u) \<and>
   (foldl (\<lambda>st step. callback actions step st) (\<lparr>scanStart = Map.empty, exitCode = 0\<rparr>, w) pre = (rs, w1) \<longrightarrow>
      last (trace (snd (callback actions (TargetEnd url now ps) (rs, w1)))) =
        Format ps url (now - ownStart pre url) (ownStart pre url)) \<and>
   (a \<noteq> b \<longrightarrow>
      reported actions [TargetStart a ta, TargetStart b tb, TargetEnd b eb pb, TargetEnd a ea pa] w =
        [Format pb b (eb - tb) tb, Format pa a (ea - ta) ta] \<and>
      reported actions [TargetStart b tb, TargetStart a ta, TargetEnd b eb pb, TargetEnd a ea pa] w =
        [Format pb b (eb - tb) tb, Format pa a (ea - ta) ta] \<and>
      reported actions [TargetStart b tb, TargetEnd b eb pb, TargetStart a ta, TargetEnd a ea pa] w =
        [Format pb b (eb - tb) tb, Format pa a (ea - ta) ta])"
proof (intro conjI impI)
  show "scanStart (fst (targetStartCallback actions url now (rs', w'))) url = Some now"
    by (simp add: targetStartCallback_def)
  show "scanStart (fst (targetStartCallback actions url now (rs', w'))) u = scanStart rs' u"
    if "u \<noteq> url" using that by (simp add: targetStartCallback_def)
  show "last (trace (snd (callback actions (TargetEnd url now ps) (rs, w1)))) =
      Format ps url (now - ownStart pre url) (ownStart pre url)"
    if "foldl (\<lambda>st step. callback actions step st) (\<lparr>scanStart = Map.empty, exitCode = 0\<rparr>, w) pre = (rs, w1)"
    using startOf_foldl [OF that] last_trace_targetEnd [of actions url now ps rs w1] by simp
qed (rule reported_two_targets; assumption)+

theorem reporter_own_start_witness:
  "foldl (\<lambda>st step. callback actions0 step st) (\<lparr>scanStart = Map.empty, exitCode = 0\<rparr>, world0)
      [TargetStart ''a'' 10, TargetStart ''b'' 20] =
     (\<lparr>scanStart = [''a'' \<mapsto> 10, ''b'' \<mapsto> 20], exitCode = 0\<rparr>,
      world0\<lparr>trace := [SpinnerStart, SpinnerStart]\<rparr>) \<and>
   last (trace (snd (callback actions0 (TargetEnd ''b'' 50 [])
      (\<lparr>scanStart = [''a'' \<mapsto> 10, ''b'' \<mapsto> 20], exitCode = 0\<rparr>,
       world0\<lparr>trace := [SpinnerStart, SpinnerStart]\<rparr>)))) = Format [] ''b'' 30 20 \<and>
   ''a'' \<noteq> ''b'' \<and>
   reported actions0 [TargetStart ''a'' 10, TargetStart ''b'' 20, TargetEnd ''b'' 50 [], TargetEnd ''a'' 70 []] world0 =
     [Format [] ''b'' 30 20, Format [] ''a'' 60 10]"
proof -
  have pre: "foldl (\<lambda>st step. callback actions0 step st) (\<lparr>scanStart = Map.empty, exitCode = 0\<rparr>, world0)
      [TargetStart ''a'' 10, TargetStart ''b'' 20] =
     (\<lparr>scanStart = [''a'' \<mapsto> 10, ''b'' \<mapsto> 20], exitCode = 0\<rparr>,
      world0\<lparr>trace := [SpinnerStart, SpinnerStart]\<rparr>)"
    by (simp add: hook_defs actions0_def world0_def emit_def)
  have own: "ownStart [TargetStart ''a'' 10, TargetStart ''b'' 20] ''b'' = 20"
    by (simp add: ownStart_def recordedStarts_def)
  have ne: "''a'' \<noteq> ''b''" by simp
  from pre own ne
    reporter_own_start [of actions0 "''b''" 50 _ _ _ world0 "[TargetStart ''a'' 10, TargetStart ''b'' 20]"
      "\<lparr>scanStart = [''a'' \<mapsto> 10, ''b'' \<mapsto> 20], exitCode = 0\<rparr>"
      "world0\<lparr>trace := [SpinnerStart, SpinnerStart]\<rparr>" "[]" "''a''" "''b''" 10 20 50 "[]" 70 "[]"]
  show ?thesis by simp
qed

section \<open>What each phase of a run can do\<close>

lemma grows_refl: "grows Q w w"
  by (simp add: grows_def)

lemma grows_trans: "grows Q a b \<Longrightarrow> grows Q b c \<Longrightarrow> grows Q a c"
  by (auto simp add: grows_def)

lemma grows_emit: "Q e \<Longrightarrow> grows Q w w' \<Longrightarrow> grows Q w (emit e w')"
  by (auto simp add: grows_def emit_def)

lemma grows_counters:
  "grows Q w w' \<Longrightarrow> grows Q w (w'\<lparr>asked := n\<rparr>)"
  "grows Q w w' \<Longrightarrow> grows Q w (w'\<lparr>installs := n\<rparr>)"
  "grows Q w w' \<Longrightarrow> grows Q w (w'\<lparr>created := n\<rparr>)"
  by (simp_all add: grows_def)

lemma grows_weaken: "grows Q w w' \<Longrightarrow> (\<And>e. Q e \<Longrightarrow> Q' e) \<Longrightarrow> grows Q' w w'"
  by (auto simp add: grows_def list_all_iff)

lemma grows_added: "grows Q w w' \<Longrightarrow> list_all Q (added w w') \<and> trace w' = trace w @ added w w'"
  by (auto simp add: grows_def added_def)

lemma bootstrap_events:
  "isBootstrapEvent (Log m)" "isBootstrapEvent (Ask q a)" "isBootstrapEvent (Install pkgs r)"
  "isBootstrapEvent (AskThrew q x)" "isBootstrapEvent (GetUserConfig path)"
  "isBootstrapEvent (CreateAnalyzer c opts)" "isBootstrapEvent (TrackEvent (CliMissing ms))"
  "isBootstrapEvent (TrackEvent (CliIncompatible ms))"
  by (simp_all add: isBootstrapEvent_def)

lemmas grows_intros = grows_refl grows_emit grows_counters bootstrap_events

lemma grows_askQuestion:
  "grows isBootstrapEvent w w' \<Longrightarrow> grows isBootstrapEvent w (snd (askQuestion en q w'))"
  by (simp add: askQuestion_def Let_def grows_intros split: sum.splits)

lemma grows_installPackages:
  "grows isBootstrapEvent w w' \<Longrightarrow> grows isBootstrapEvent w (snd (installPackages en ps w'))"
  by (simp add: installPackages_def Let_def grows_intros)

lemma grows_createAnalyzer:
  "grows isBootstrapEvent w w' \<Longrightarrow> grows isBootstrapEvent w (snd (createAnalyzer en c opts w'))"
  by (simp add: createAnalyzer_def grows_intros)

lemma grows_getDefaultConfiguration:
  "grows isBootstrapEvent w w' \<Longrightarrow> grows isBootstrapEvent w (snd (getDefaultConfiguration en targets w'))"
  by (simp add: getDefaultConfiguration_def Let_def grows_intros)

lemma grows_askUserToUseDefaultConfiguration:
  "grows isBootstrapEvent w w' \<Longrightarrow>
   grows isBootstrapEvent w (snd (askUserToUseDefaultConfiguration en targets w'))"
  using grows_getDefaultConfiguration [OF grows_askQuestion, of w w' en targets en DefaultConfigurationQuestion]
    grows_askQuestion [of w w' en DefaultConfigurationQuestion]
  by (auto simp add: askUserToUseDefaultConfiguration_def Let_def split: prod.splits sum.splits)

lemma grows_askUserToInstallDependencies:
  "grows isBootstrapEvent w w' \<Longrightarrow>
   grows isBootstrapEvent w (snd (askUserToInstallDependencies en resources w'))"
  by (simp add: askUserToInstallDependencies_def showMissingAndIncompatiblePackages_def Let_def
      grows_askQuestion grows_intros)

lemma grows_askToInstallPackages:
  assumes "grows isBootstrapEvent w w'"
  shows "grows isBootstrapEvent w (snd (askToInstallPackages en resources w'))"
proof -
  define w2 where "w2 =
    (let w1 = (if length (missing resources) > 0
                then emit (TrackEvent (CliMissing (missing resources))) w' else w')
     in if length (incompatible resources) > 0
        then emit (TrackEvent (CliIncompatible (incompatible resources))) w1 else w1)"
  have u2: "grows isBootstrapEvent w w2"
    using assms by (simp add: w2_def Let_def grows_intros)
  obtain answer w3 where a: "askUserToInstallDependencies en resources w2 = (answer, w3)"
    by (cases "askUserToInstallDependencies en resources w2")
  have u3: "grows isBootstrapEvent w w3"
    using grows_askUserToInstallDependencies [OF u2, of en resources] a by simp
  obtain r4 w4 where b: "installPackages en (missingPackages resources) w3 = (r4, w4)"
    by (cases "installPackages en (missingPackages resources) w3")
  have u4: "grows isBootstrapEvent w w4"
    using grows_installPackages [OF u3, of en] b by (metis snd_conv)
  obtain r5 w5 where c: "installPackages en (incompatiblePackages resources) w4 = (r5, w5)"
    by (cases "installPackages en (incompatiblePackages resources) w4")
  have u5: "grows isBootstrapEvent w w5"
    using grows_installPackages [OF u4, of en] c by (metis snd_conv)
  have "snd (askToInstallPackages en resources w') \<in> {w3, w4, w5}"
    using a b c by (cases answer) (simp_all add: askToInstallPackages_def w2_def Let_def)
  with u3 u4 u5 show ?thesis by auto
qed

lemma grows_loadUserConfig:
  assumes "grows isBootstrapEvent w w'"
  shows "grows isBootstrapEvent w (snd (loadUserConfig en actions targets w'))"
proof -
  have g: "grows isBootstrapEvent w (emit (GetUserConfig (cli_config actions)) w')"
    using assms by (simp add: grows_intros)
  from grows_getDefaultConfiguration [OF g, of en targets] g show ?thesis
    by (auto simp add: loadUserConfig_def split: option.splits prod.splits sum.splits)
qed

text \<open>
  Induction over the calls of a bootstrap that returns: one case for each way a call ends, with
  the induction hypothesis for the call it makes after a recovery.
\<close>

lemma getAnalyzer_induct [consumes 1, case_names Ready Other Hint Connector DefaultThrows Declined
    RetryDefault InstallThrows InstallFailed RetryInstalled]:
  assumes major: "getAnalyzer en userConfig options targets w = Some y"
    and ready: "\<And>userConfig w webhint w1.
      createAnalyzer en userConfig options w = (Inr webhint, w1) \<Longrightarrow> P userConfig w (Inr webhint, w1)"
    and other: "\<And>userConfig w m w1.
      createAnalyzer en userConfig options w = (Inl (Error m), w1) \<Longrightarrow>
      P userConfig w (Inl (Error m), emit (Log (ErrorMessage (Error m))) w1)"
    and hint: "\<And>userConfig w invalidHints w1.
      createAnalyzer en userConfig options w = (Inl (AnalyzerErr (HintError invalidHints)), w1) \<Longrightarrow>
      P userConfig w (Inl (AnalyzerErr (HintError invalidHints)), emit (Log (InvalidHints invalidHints)) w1)"
    and conn: "\<And>userConfig w w1.
      createAnalyzer en userConfig options w = (Inl (AnalyzerErr ConnectorError), w1) \<Longrightarrow>
      P userConfig w (Inl (AnalyzerErr ConnectorError), emit (Log InvalidConnector) w1)"
    and default_throws: "\<And>userConfig w w1 e' w2.
      createAnalyzer en userConfig options w = (Inl (AnalyzerErr ConfigurationError), w1) \<Longrightarrow>
      askUserToUseDefaultConfiguration en targets w1 = (Inl e', w2) \<Longrightarrow>
      P userConfig w (Inl e', w2)"
    and declined: "\<And>userConfig w w1 w2.
      createAnalyzer en userConfig options w = (Inl (AnalyzerErr ConfigurationError), w1) \<Longrightarrow>
      askUserToUseDefaultConfiguration en targets w1 = (Inr None, w2) \<Longrightarrow>
      P userConfig w (Inl (AnalyzerErr ConfigurationError), w2)"
    and retry_default: "\<And>userConfig w w1 config w2 y.
      createAnalyzer en userConfig options w = (Inl (AnalyzerErr ConfigurationError), w1) \<Longrightarrow>
      askUserToUseDefaultConfiguration en targets w1 = (Inr (Some config), w2) \<Longrightarrow>
      getAnalyzer en config options targets w2 = Some y \<Longrightarrow>
      P config w2 y \<Longrightarrow> P userConfig w y"
    and install_throws: "\<And>userConfig w resources w1 e' w2.
      createAnalyzer en userConfig options w = (Inl (AnalyzerErr (ResourceError resources)), w1) \<Longrightarrow>
      askToInstallPackages en resources w1 = (Inl e', w2) \<Longrightarrow>
      P userConfig w (Inl e', w2)"
    and install_failed: "\<And>userConfig w resources w1 w2.
      createAnalyzer en userConfig options w = (Inl (AnalyzerErr (ResourceError resources)), w1) \<Longrightarrow>
      askToInstallPackages en resources w1 = (Inr False, w2) \<Longrightarrow>
      P userConfig w (Inl (AnalyzerErr (ResourceError resources)), w2)"
    and retry_installed: "\<And>userConfig w resources w1 w2 y.
      createAnalyzer en userConfig options w = (Inl (AnalyzerErr (ResourceError resources)), w1) \<Longrightarrow>
      askToInstallPackages en resources w1 = (Inr True, w2) \<Longrightarrow>
      getAnalyzer en userConfig options targets w2 = Some y \<Longrightarrow>
      P userConfig w2 y \<Longrightarrow> P userConfig w y"
  shows "P userConfig w y"
proof -
  have "getAnalyzer en userConfig options targets w = Some y \<longrightarrow>
        (en = en \<and> options = options \<and> targets = targets \<longrightarrow> P userConfig w y)"
  proof (rule getAnalyzer.raw_induct
      [where P = "\<lambda>en' userConfig options' targets' w y.
          getAnalyzer en' userConfig options' targets' w = Some y \<longrightarrow>
          (en' = en \<and> options' = options \<and> targets' = targets \<longrightarrow> P userConfig w y)",
        OF _ major])
    fix rec :: "env \<Rightarrow> UserConfig \<Rightarrow> CreateAnalyzerOptions \<Rightarrow> URL list \<Rightarrow> world
        \<Rightarrow> ((exn + Analyzer) \<times> world) option"
      and en' userConfig options' targets' w y
    assume IH: "\<And>e c opts ts b z.
        rec e c opts ts b = Some z \<Longrightarrow>
        getAnalyzer e c opts ts b = Some z \<longrightarrow> (e = en \<and> opts = options \<and> ts = targets \<longrightarrow> P c b z)"
    assume body: "(case createAnalyzer en' userConfig options' w of
        (Inl e, w1) \<Rightarrow>
          (case e of
          AnalyzerErr ConfigurationError \<Rightarrow>
            (case askUserToUseDefaultConfiguration en' targets' w1 of
            (Inl e', w2) \<Rightarrow> Some (Inl e', w2)
            | (Inr None, w2) \<Rightarrow> Some (Inl e, w2)
            | (Inr (Some config), w2) \<Rightarrow> rec en' config options' targets' w2)
          | AnalyzerErr (ResourceError resources) \<Rightarrow>
              (case askToInstallPackages en' resources w1 of
                (Inl e', w2) \<Rightarrow> Some (Inl e', w2)
              | (Inr installed, w2) \<Rightarrow>
                if \<not> installed then Some (Inl e, w2)
                else rec en' userConfig options' targets' w2)
          | AnalyzerErr (HintError invalidHints) \<Rightarrow>
              Some (Inl e, emit (Log (InvalidHints invalidHints)) w1)
          | AnalyzerErr ConnectorError \<Rightarrow>
              Some (Inl e, emit (Log InvalidConnector) w1)
          | Error m \<Rightarrow> Some (Inl e, emit (Log (ErrorMessage e)) w1))
        | (Inr webhint, w1) \<Rightarrow> Some (Inr webhint, w1)) = Some y"
    show "getAnalyzer en' userConfig options' targets' w = Some y \<longrightarrow>
          (en' = en \<and> options' = options \<and> targets' = targets \<longrightarrow> P userConfig w y)"
    proof (intro impI, elim conjE)
      assume real: "getAnalyzer en' userConfig options' targets' w = Some y"
        and eqs: "en' = en" "options' = options" "targets' = targets"
      note real0 = real [unfolded eqs]
      note body' = body [unfolded eqs]
      obtain r w1 where c: "createAnalyzer en userConfig options w = (r, w1)"
        by (cases "createAnalyzer en userConfig options w")
      obtain rd wd where d: "askUserToUseDefaultConfiguration en targets w1 = (rd, wd)"
        by (cases "askUserToUseDefaultConfiguration en targets w1")
      show "P userConfig w y"
      proof (cases r)
        case (Inr webhint)
        with body' c have "y = (Inr webhint, w1)" by simp
        with ready c Inr show ?thesis by simp
      next
        case (Inl e)
        show ?thesis
        proof (cases e)
          case (Error m)
          with body' c Inl have "y = (Inl e, emit (Log (ErrorMessage e)) w1)" by simp
          with other c Inl Error show ?thesis by simp
        next
          case (AnalyzerErr ae)
          show ?thesis
          proof (cases ae)
            case ConfigurationError
            note c' = c [unfolded Inl AnalyzerErr ConfigurationError]
            show ?thesis
            proof (cases rd)
              case (Inl e')
              with body' c' d have "y = (Inl e', wd)" by simp
              with default_throws [OF c'] d Inl show ?thesis by simp
            next
              case (Inr oc)
              show ?thesis
              proof (cases oc)
                case None
                with body' c' d Inr have "y = (Inl (AnalyzerErr ConfigurationError), wd)" by simp
                with declined [OF c'] d Inr None show ?thesis by simp
              next
                case (Some config)
                with body' c' d Inr
                have rc: "rec en config options targets wd = Some y" by simp
                from real0 c' d Inr Some
                have gc: "getAnalyzer en config options targets wd = Some y"
                  by (subst (asm) getAnalyzer.simps) simp
                from IH [OF rc] gc have "P config wd y" by simp
                with retry_default [OF c' _ gc] d Inr Some show ?thesis by simp
              qed
            qed
          next
            case (ResourceError resources)
            note c' = c [unfolded Inl AnalyzerErr ResourceError]
            obtain ri w2 where i: "askToInstallPackages en resources w1 = (ri, w2)"
              by (cases "askToInstallPackages en resources w1")
            show ?thesis
            proof (cases ri)
              case (Inl e')
              with body' c' i have "y = (Inl e', w2)" by simp
              with install_throws [OF c'] i Inl show ?thesis by simp
            next
              case (Inr installed)
              show ?thesis
              proof (cases installed)
                case False
                with body' c' i Inr have "y = (Inl (AnalyzerErr (ResourceError resources)), w2)" by simp
                with install_failed [OF c'] i Inr False show ?thesis by simp
              next
                case True
                with body' c' i Inr have rc: "rec en userConfig options targets w2 = Some y" by simp
                from real0 c' i Inr True
                have gc: "getAnalyzer en userConfig options targets w2 = Some y"
                  by (subst (asm) getAnalyzer.simps) simp
                from IH [OF rc] gc have "P userConfig w2 y" by simp
                with retry_installed [OF c' _ gc] i Inr True show ?thesis by simp
              qed
            qed
          next
            case (HintError invalidHints)
            with body' c Inl AnalyzerErr
            have "y = (Inl e, emit (Log (InvalidHints invalidHints)) w1)" by simp
            with hint c Inl AnalyzerErr HintError show ?thesis by simp
          next
            case ConnectorError
            with body' c Inl AnalyzerErr
            have "y = (Inl e, emit (Log InvalidConnector) w1)" by simp
            with conn c Inl AnalyzerErr ConnectorError show ?thesis by simp
          qed
        qed
      qed
    qed
  qed
  with major show ?thesis by simp
qed

lemma grows_steps:
  "createAnalyzer en c opts w' = (r, w1) \<Longrightarrow> grows isBootstrapEvent w w' \<Longrightarrow> grows isBootstrapEvent w w1"
  "askUserToUseDefaultConfiguration en targets w' = (rd, w2) \<Longrightarrow> grows isBootstrapEvent w w' \<Longrightarrow>
     grows isBootstrapEvent w w2"
  "askToInstallPackages en resources w' = (ri, w3) \<Longrightarrow> grows isBootstrapEvent w w' \<Longrightarrow>
     grows isBootstrapEvent w w3"
  using grows_createAnalyzer [of w w' en c opts]
    grows_askUserToUseDefaultConfiguration [of w w' en targets]
    grows_askToInstallPackages [of w w' en resources]
  by simp_all

lemma grows_getAnalyzer:
  assumes "getAnalyzer en userConfig options targets w' = Some y"
  shows "grows isBootstrapEvent w w' \<Longrightarrow> grows isBootstrapEvent w (snd y)"
  using assms
proof (induction rule: getAnalyzer_induct)
  case (Ready userConfig w' webhint w1)
  then show ?case by (simp add: grows_steps(1))
next
  case (Other userConfig w' m w1)
  then show ?case by (simp add: grows_steps(1) grows_intros)
next
  case (Hint userConfig w' invalidHints w1)
  then show ?case by (simp add: grows_steps(1) grows_intros)
next
  case (Connector userConfig w' w1)
  then show ?case by (simp add: grows_steps(1) grows_intros)
next
  case (DefaultThrows userConfig w' w1 e' w2)
  then show ?case using grows_steps(1,2) by (metis snd_conv)
next
  case (Declined userConfig w' w1 w2)
  then show ?case using grows_steps(1,2) by (metis snd_conv)
next
  case (RetryDefault userConfig w' w1 config w2 y)
  then show ?case using grows_steps(1,2) by metis
next
  case (InstallThrows userConfig w' resources w1 e' w2)
  then show ?case using grows_steps(1,3) by (metis snd_conv)
next
  case (InstallFailed userConfig w' resources w1 w2)
  then show ?case using grows_steps(1,3) by (metis snd_conv)
next
  case (RetryInstalled userConfig w' resources w1 w2 y)
  then show ?case using grows_steps(1,3) by metis
qed

lemma report_events:
  "isReportEvent dbg (Analyze ts)" "isReportEvent dbg (Format fs u st d)"
  "\<not> dbg \<Longrightarrow> isReportEvent dbg SpinnerStart" "\<not> dbg \<Longrightarrow> isReportEvent dbg (SpinnerText s)"
  "\<not> dbg \<Longrightarrow> isReportEvent dbg SpinnerSucceed" "\<not> dbg \<Longrightarrow> isReportEvent dbg SpinnerFail"
  by (simp_all add: isReportEvent_def)

lemma grows_callback:
  "grows (isReportEvent (cli_debug actions)) w w' \<Longrightarrow>
   grows (isReportEvent (cli_debug actions)) w (snd (callback actions step (rs, w')))"
  by (cases step; cases "cli_debug actions")
    (simp_all add: targetStartCallback_def updateCallback_def targetEndCallback_def endSpinner_def
      print_def Let_def grows_emit report_events)

lemma grows_hooks:
  "grows (isReportEvent (cli_debug actions)) w w' \<Longrightarrow>
   grows (isReportEvent (cli_debug actions)) w
     (snd (foldl (\<lambda>st step. callback actions step st) (rs, w') steps))"
proof (induction steps arbitrary: rs w')
  case Nil
  then show ?case by simp
next
  case (Cons step steps)
  obtain rs1 w1 where s: "callback actions step (rs, w') = (rs1, w1)"
    by (cases "callback actions step (rs, w')")
  with grows_callback [OF Cons.prems, of step rs] have "grows (isReportEvent (cli_debug actions)) w w1"
    by simp
  from Cons.IH [OF this, of rs1] s show ?case by simp
qed

lemma exitCode_callback:
  "exitCode (fst (callback actions step (rs, w))) = (if endHasError step then 1 else exitCode rs)"
  by (cases step)
    (simp_all add: targetStartCallback_def updateCallback_def targetEndCallback_def Let_def
      endHasError_def hasError_def)

lemma exitCode_hooks:
  "exitCode (fst (foldl (\<lambda>st step. callback actions step st) (rs, w) steps)) =
     (if list_ex endHasError steps then 1 else exitCode rs)"
proof (induction steps arbitrary: rs w)
  case Nil
  then show ?case by simp
next
  case (Cons step steps)
  obtain rs1 w1 where s: "callback actions step (rs, w) = (rs1, w1)"
    by (cases "callback actions step (rs, w)")
  have "exitCode rs1 = (if endHasError step then 1 else exitCode rs)"
    using exitCode_callback [of actions step rs w] s by simp
  with Cons.IH [of rs1 w1] s show ?case by simp
qed

lemma run_ends: "(run en actions userConfig webhint targets w = None) = hangs webhint"
  by (simp add: run_def)

lemma run_result:
  assumes "run en actions userConfig webhint targets w = Some (ok, w')"
  shows "ok = (\<not> producedError webhint \<and> failure webhint = None \<and>
      fst (sendTelemetryIfEnabled en userConfig (afterHooks actions webhint targets w)) = None)"
  using assms exitCode_hooks [of actions "\<lparr>scanStart = Map.empty, exitCode = 0\<rparr>"
      "emit (Analyze targets) w" "script webhint"]
  by (auto simp add: run_def webhint_analyze_def producedError_def afterHooks_def
      split: prod.splits option.splits if_splits)

lemma grows_afterHooks:
  "grows (isReportEvent (cli_debug actions)) w (afterHooks actions webhint targets w)"
proof -
  have "grows (isReportEvent (cli_debug actions)) w (emit (Analyze targets) w)"
    by (simp add: grows_emit report_events grows_refl)
  from grows_hooks [OF this, of "\<lparr>scanStart = Map.empty, exitCode = 0\<rparr>" "script webhint"]
  show ?thesis by (simp add: afterHooks_def webhint_analyze_def)
qed

lemma run_world:
  assumes "run en actions userConfig webhint targets w = Some (ok, w')"
  shows "w' =
     (if failure webhint = None
      then (if fst (sendTelemetryIfEnabled en userConfig (afterHooks actions webhint targets w)) = None
            then snd (sendTelemetryIfEnabled en userConfig (afterHooks actions webhint targets w))
            else endSpinner actions SpinnerFail
                   (snd (sendTelemetryIfEnabled en userConfig (afterHooks actions webhint targets w))))
      else endSpinner actions SpinnerFail (afterHooks actions webhint targets w))"
  using assms
  by (auto simp add: run_def afterHooks_def webhint_analyze_def
      split: prod.splits option.splits if_splits)

lemma analyze_cases [consumes 1, case_names NoTargets ConfigThrows NoAnalyzer Ran]:
  assumes major: "analyze en actions w = Some (r, w')"
    and zero: "getAsUris en (underscore actions) = [] \<Longrightarrow> readyAnalyzer en actions w = None \<Longrightarrow>
       r = Inr False \<Longrightarrow> w' = w \<Longrightarrow> P"
    and load: "\<And>e. readyAnalyzer en actions w = None \<Longrightarrow> r = Inl e \<Longrightarrow>
       grows isBootstrapEvent w w' \<Longrightarrow> P"
    and boot: "readyAnalyzer en actions w = None \<Longrightarrow> r = Inr False \<Longrightarrow>
       grows isBootstrapEvent w w' \<Longrightarrow> P"
    and ran: "\<And>userConfig webhint w1 w2.
       getAsUris en (underscore actions) \<noteq> [] \<Longrightarrow>
       loadUserConfig en actions (getAsUris en (underscore actions)) w = (Inr userConfig, w1) \<Longrightarrow>
       getAnalyzer en userConfig (actionsToOptions actions) (getAsUris en (underscore actions)) w1 =
         Some (Inr webhint, w2) \<Longrightarrow>
       readyAnalyzer en actions w = Some webhint \<Longrightarrow>
       grows isBootstrapEvent w w2 \<Longrightarrow>
       \<not> hangs webhint \<Longrightarrow>
       telemetryOutcome en actions w =
         (if failure webhint = None
          then fst (sendTelemetryIfEnabled en userConfig
                      (afterHooks actions webhint (getAsUris en (underscore actions)) w2))
          else None) \<Longrightarrow>
       r = Inr (\<not> producedError webhint \<and> failure webhint = None \<and>
                telemetryOutcome en actions w = None) \<Longrightarrow>
       run en actions userConfig webhint (getAsUris en (underscore actions)) w2 =
         Some (\<not> producedError webhint \<and> failure webhint = None \<and>
               telemetryOutcome en actions w = None, w') \<Longrightarrow> P"
  shows P
proof (cases "getAsUris en (underscore actions) = []")
  case True
  from major True have "r = Inr False" and "w' = w"
    by (simp_all add: analyze_def)
  moreover from True have "readyAnalyzer en actions w = None"
    by (simp add: readyAnalyzer_def)
  ultimately show ?thesis using zero [OF True] by blast
next
  case False
  define targets where "targets = getAsUris en (underscore actions)"
  obtain rl w1 where l: "loadUserConfig en actions targets w = (rl, w1)"
    by (cases "loadUserConfig en actions targets w")
  have g1: "grows isBootstrapEvent w w1"
    using grows_loadUserConfig [OF grows_refl, of w en actions targets] l by simp
  show ?thesis
  proof (cases rl)
    case (Inl e)
    with major False l load [of e] g1 show ?thesis
      by (simp add: analyze_def readyAnalyzer_def targets_def)
  next
    case (Inr userConfig)
    from major False l Inr obtain rb w2 where
      b: "getAnalyzer en userConfig (actionsToOptions actions) targets w1 = Some (rb, w2)"
      by (cases "getAnalyzer en userConfig (actionsToOptions actions) targets w1")
        (auto simp add: analyze_def targets_def)
    have g2: "grows isBootstrapEvent w w2"
      using grows_getAnalyzer [OF b g1] by simp
    show ?thesis
    proof (cases rb)
      case (Inl e)
      with major False l Inr b boot g2 show ?thesis
        by (simp add: analyze_def readyAnalyzer_def targets_def)
    next
      case (Inr webhint)
      from major False l \<open>rl = Inr userConfig\<close> b Inr obtain ok w3 where
        rr: "run en actions userConfig webhint targets w2 = Some (ok, w3)"
        by (cases "run en actions userConfig webhint targets w2")
          (auto simp add: analyze_def targets_def [symmetric])
      then have h: "\<not> hangs webhint"
        using run_ends [of en actions userConfig webhint targets w2] by simp
      have t: "telemetryOutcome en actions w =
          (if failure webhint = None
           then fst (sendTelemetryIfEnabled en userConfig (afterHooks actions webhint targets w2))
           else None)"
        using False l \<open>rl = Inr userConfig\<close> b Inr h
        by (simp add: telemetryOutcome_def targets_def [symmetric])
      have ok: "ok = (\<not> producedError webhint \<and> failure webhint = None \<and>
          telemetryOutcome en actions w = None)"
        using run_result [OF rr] t by auto
      from major False l \<open>rl = Inr userConfig\<close> b Inr rr ok
      have r: "r = Inr (\<not> producedError webhint \<and> failure webhint = None \<and>
          telemetryOutcome en actions w = None)"
        and w': "w' = w3"
        by (simp_all add: analyze_def targets_def [symmetric])
      have ra: "readyAnalyzer en actions w = Some webhint"
        using False l \<open>rl = Inr userConfig\<close> b Inr
        by (simp add: readyAnalyzer_def targets_def [symmetric])
      from ran [OF False l [unfolded targets_def \<open>rl = Inr userConfig\<close>]
          b [unfolded targets_def Inr] ra g2 h t [unfolded targets_def] r
          rr [unfolded targets_def ok w' [symmetric]]]
      show ?thesis .
    qed
  qed
qed

lemma gateCalls_append: "gateCalls (xs @ ys) = gateCalls xs + gateCalls ys"
  by (simp add: gateCalls_def)

lemma gateCalls_none: "list_all (\<lambda>e. e \<noteq> StoreGet alreadyRunKey) evs \<Longrightarrow> gateCalls evs = 0"
  by (induction evs) (simp_all add: gateCalls_def)

lemma not_list_ex: "list_all (\<lambda>e. \<not> Q e) evs \<Longrightarrow> \<not> list_ex Q evs"
  by (simp add: list_all_iff list_ex_iff)

lemma run_event_facts:
  "isRunEvent dbg e \<Longrightarrow> e \<noteq> StoreGet k"
  "isRunEvent dbg e \<Longrightarrow> \<not> isStoreEvent e"
  "isRunEvent dbg e \<Longrightarrow> \<not> isRunOutcome e"
  "isRunEvent True e \<Longrightarrow> \<not> isSpinner e"
  by (cases e; simp add: isRunEvent_def isBootstrapEvent_def isReportEvent_def isStoreEvent_def
      isRunOutcome_def isSpinner_def split: telemetry_event.splits)+

lemma run_events_exclude:
  assumes "list_all (isRunEvent dbg) evs"
  shows "list_all (\<lambda>e. \<not> isStoreEvent e) evs"
    and "list_all (\<lambda>e. e \<noteq> StoreGet alreadyRunKey) evs"
    and "list_all (\<lambda>e. \<not> isRunOutcome e) evs"
    and "dbg \<Longrightarrow> list_all (\<lambda>e. \<not> isSpinner e) evs"
  using assms run_event_facts by (auto simp add: list_all_iff)

lemma gate_trace:
  "\<exists>evs. trace (snd (sendTelemetryIfEnabled en userConfig w)) =
            trace w @ StoreGet alreadyRunKey # evs \<and>
     list_all (\<lambda>e. e \<noteq> StoreGet alreadyRunKey \<and> \<not> isSpinner e) evs"
  by (simp add: gate_defs Let_def emit_simps isSpinner_def split: sum.splits prod.splits)

lemma loadUserConfig_trace:
  "\<exists>evs. trace (snd (loadUserConfig en actions targets w)) =
     trace w @ GetUserConfig (cli_config actions) # evs"
  by (simp add: loadUserConfig_def getDefaultConfiguration_def Let_def emit_simps
      split: option.splits sum.splits prod.splits if_splits)

lemma grows_run_prefix:
  assumes "grows isBootstrapEvent w w2"
  shows "grows (isRunEvent (cli_debug actions)) w (afterHooks actions webhint targets w2)"
proof -
  have a: "grows (isRunEvent (cli_debug actions)) w w2"
    using assms by (rule grows_weaken) (simp add: isRunEvent_def)
  have b: "grows (isRunEvent (cli_debug actions)) w2 (afterHooks actions webhint targets w2)"
    using grows_afterHooks [of actions w2 webhint targets] by (rule grows_weaken) (simp add: isRunEvent_def)
  from a b show ?thesis by (rule grows_trans)
qed

lemma analyze_early_exit:
  assumes "analyze en actions w = Some (r, w')"
    and "case readyAnalyzer en actions w of None \<Rightarrow> True | Some webhint \<Rightarrow> failure webhint \<noteq> None"
  shows "grows (isRunEvent (cli_debug actions)) w w'"
  using assms(1)
proof (cases rule: analyze_cases)
  case NoTargets
  then show ?thesis by (simp add: grows_refl)
next
  case (ConfigThrows e)
  then show ?thesis using grows_weaken [of isBootstrapEvent w w' "isRunEvent (cli_debug actions)"]
    by (simp add: isRunEvent_def)
next
  case NoAnalyzer
  then show ?thesis using grows_weaken [of isBootstrapEvent w w' "isRunEvent (cli_debug actions)"]
    by (simp add: isRunEvent_def)
next
  case (Ran userConfig webhint w1 w2)
  with assms(2) have f: "failure webhint \<noteq> None" by simp
  have g: "grows (isRunEvent (cli_debug actions)) w
      (afterHooks actions webhint (getAsUris en (underscore actions)) w2)"
    using Ran(5) by (rule grows_run_prefix)
  have "grows (isRunEvent (cli_debug actions)) w
      (endSpinner actions SpinnerFail (afterHooks actions webhint (getAsUris en (underscore actions)) w2))"
    using g by (cases "cli_debug actions")
      (simp_all add: endSpinner_def grows_emit isRunEvent_def report_events)
  with run_world [OF Ran(9)] f show ?thesis by simp
qed

section \<open>Concrete runs, evaluated\<close>

lemmas run_defs = analyze_def loadUserConfig_def getDefaultConfiguration_def areFiles_def
  anyFile_def getLanguage_def truthy_def emit_def Let_def getAnalyzer.simps createAnalyzer_def
  run_def webhint_analyze_def targetStartCallback_def targetEndCallback_def updateCallback_def
  endSpinner_def print_def startOf_def hasError_def gate_defs

lemmas concrete_defs = env_with_def envHint_def env0_def actionsA_def actionsD_def actions0_def
  world0_def configA_def bootA_def targetsA_def emptyConfig_def actionsToOptions_def

lemma run_hint: "analyze envHint actionsA world0 = Some (Inr False, wHint)"
  by (simp add: run_defs concrete_defs wHint_def)

lemma run_throw: "analyze (env_with analyzerThrow) actionsA world0 = Some (Inr False, wThrow)"
  by (simp add: run_defs concrete_defs wThrow_def analyzerThrow_def)

lemma run_throw_debug: "analyze (env_with analyzerThrow) actionsD world0 = Some (Inr False, wThrowDebug)"
  by (simp add: run_defs concrete_defs wThrowDebug_def analyzerThrow_def)

lemma run_warn: "analyze (env_with analyzerWarn) actionsA world0 = Some (Inr True, wWarn)"
  by (simp add: run_defs concrete_defs wWarn_def analyzerWarn_def problem_def)

lemma ready_concrete:
  "readyAnalyzer (env_with analyzerErr) actionsA world0 = Some analyzerErr"
  "readyAnalyzer (env_with analyzerWarn) actionsA world0 = Some analyzerWarn"
  "readyAnalyzer (env_with analyzerThrow) actionsA world0 = Some analyzerThrow"
  "readyAnalyzer (env_with analyzerThrow) actionsD world0 = Some analyzerThrow"
  "readyAnalyzer envHint actionsA world0 = None"
  "readyAnalyzer env0 actions0 world0 = None"
  by (simp_all add: readyAnalyzer_def run_defs concrete_defs)

lemma run_prompt_throws:
  "analyze envPromptThrows actionsA world1 = Some (Inr False, wPromptThrows)"
  by (simp add: run_defs concrete_defs envPromptThrows_def world1_def wPromptThrows_def
      analyzerWarn_def problem_def)

lemma run_hang: "analyze (env_with analyzerHang) actionsA world0 = None"
  by (simp add: run_defs concrete_defs analyzerHang_def)

lemma ready_prompt_throws:
  "readyAnalyzer envPromptThrows actionsA world1 = Some analyzerWarn"
  "telemetryOutcome envPromptThrows actionsA world1 = Some (Error ''prompt closed'')"
  "readyAnalyzer (env_with analyzerHang) actionsA world0 = Some analyzerHang"
  "telemetryOutcome (env_with analyzerWarn) actionsA world0 = None"
  by (simp_all add: readyAnalyzer_def telemetryOutcome_def afterHooks_def run_defs concrete_defs
      envPromptThrows_def world1_def analyzerWarn_def analyzerHang_def problem_def)

section \<open>Zero targets\<close>

text \<open>
  Claim C9. A run invoked with zero targets returns failure at once, gets no analyzer ready, and
  adds nothing to the trace and changes nothing else in the world. The trace records every call
  that loads the configuration, asks a question, installs packages, constructs an analyzer,
  reads or writes the persistent store or the consent, sends telemetry, or touches the spinner;
  with at least one target, the run does add to the trace, beginning with the call that loads
  the configuration.
\<close>

theorem analyze_zero_targets:
  "(getAsUris en (underscore actions) = [] \<longrightarrow>
      analyze en actions w = Some (Inr False, w) \<and> readyAnalyzer en actions w = None) \<and>
   (getAsUris en (underscore actions) \<noteq> [] \<and> analyze en actions w = Some (r, w') \<longrightarrow>
      take 1 (added w w') = [GetUserConfig (cli_config actions)])"
proof (intro conjI impI)
  assume "getAsUris en (underscore actions) = []"
  then show "analyze en actions w = Some (Inr False, w)" "readyAnalyzer en actions w = None"
    by (simp_all add: analyze_def readyAnalyzer_def)
next
  assume a: "getAsUris en (underscore actions) \<noteq> [] \<and> analyze en actions w = Some (r, w')"
  obtain rl w1 where l: "loadUserConfig en actions (getAsUris en (underscore actions)) w = (rl, w1)"
    by (cases "loadUserConfig en actions (getAsUris en (underscore actions)) w")
  with loadUserConfig_trace [of en actions "getAsUris en (underscore actions)" w]
  obtain evs1 where t1: "trace w1 = trace w @ GetUserConfig (cli_config actions) # evs1"
    by auto
  have "\<exists>evs. trace w' = trace w1 @ evs"
  proof (cases rl)
    case (Inl e)
    with a l show ?thesis by (auto simp add: analyze_def Let_def)
  next
    case (Inr userConfig)
    with a l obtain rb w2 where
      b: "getAnalyzer en userConfig (actionsToOptions actions) (getAsUris en (underscore actions)) w1 =
            Some (rb, w2)"
      by (cases "getAnalyzer en userConfig (actionsToOptions actions)
                   (getAsUris en (underscore actions)) w1") (auto simp add: analyze_def Let_def)
    from grows_getAnalyzer [OF b grows_refl] have g: "grows isBootstrapEvent w1 w2" by simp
    show ?thesis
    proof (cases rb)
      case (Inl e)
      with a l \<open>rl = Inr userConfig\<close> b g show ?thesis by (auto simp add: analyze_def Let_def grows_def)
    next
      case (Inr webhint)
      from grows_run_prefix [OF g, of actions webhint "getAsUris en (underscore actions)"]
      obtain evs0 where h: "trace (afterHooks actions webhint (getAsUris en (underscore actions)) w2) =
          trace w1 @ evs0"
        by (auto simp add: grows_def)
      from gate_trace [of en userConfig "afterHooks actions webhint (getAsUris en (underscore actions)) w2"]
      obtain evs2 where k: "trace (snd (sendTelemetryIfEnabled en userConfig
            (afterHooks actions webhint (getAsUris en (underscore actions)) w2))) =
          trace (afterHooks actions webhint (getAsUris en (underscore actions)) w2) @ evs2"
        by auto
      from a l \<open>rl = Inr userConfig\<close> b Inr obtain ok where
        "run en actions userConfig webhint (getAsUris en (underscore actions)) w2 = Some (ok, w')"
        by (auto simp add: analyze_def Let_def split: prod.splits option.splits)
      from run_world [OF this] h k show ?thesis
        by (auto simp add: endSpinner_def emit_simps)
    qed
  qed
  with t1 show "take 1 (added w w') = [GetUserConfig (cli_config actions)]"
    by (auto simp add: added_def)
qed

theorem analyze_zero_targets_witness:
  "getAsUris env0 (underscore actions0) = [] \<and>
   analyze env0 actions0 world0 = Some (Inr False, world0) \<and>
   readyAnalyzer env0 actions0 world0 = None \<and>
   getAsUris envHint (underscore actionsA) \<noteq> [] \<and>
   analyze envHint actionsA world0 = Some (Inr False, wHint) \<and>
   take 1 (added world0 wHint) = [GetUserConfig (cli_config actionsA)]"
proof -
  have a: "getAsUris env0 (underscore actions0) = []"
    "getAsUris envHint (underscore actionsA) \<noteq> []"
    by (simp_all add: env0_def envHint_def actions0_def actionsA_def)
  from a run_hint analyze_zero_targets [of env0 actions0 world0]
    analyze_zero_targets [of envHint actionsA world0 "Inr False" wHint]
  show ?thesis by simp
qed

section \<open>Exit status\<close>

text \<open>
  Claim C1, as amended. A run that returns reports failure exactly when it got no analyzer ready
  (zero targets, or a bootstrap that ended with an error), or some target-end event carried a
  finding of severity \<open>error\<close>, or the analyze call threw, or the telemetry step after the
  analyze call threw. A run that gets an analyzer ready returns, with that status, unless the
  analyze call never settles, and then the run does not return. So one \<open>error\<close> finding
  among warnings gives failure, and findings without an error, no exception of the analyze call
  and none of the telemetry step give success.
\<close>

theorem analyze_exit_status:
  "(analyze en actions w = Some (Inr ok, w') \<longrightarrow>
      ok = (case readyAnalyzer en actions w of
              None \<Rightarrow> False
            | Some webhint \<Rightarrow>
                \<not> producedError webhint \<and> failure webhint = None \<and>
                telemetryOutcome en actions w = None)) \<and>
   (readyAnalyzer en actions w = Some webhint \<longrightarrow>
      (if hangs webhint then analyze en actions w = None
       else (\<exists>w''. analyze en actions w =
               Some (Inr (\<not> producedError webhint \<and> failure webhint = None \<and>
                          telemetryOutcome en actions w = None), w''))))"
proof (intro conjI impI)
  assume a: "analyze en actions w = Some (Inr ok, w')"
  then show "ok = (case readyAnalyzer en actions w of
              None \<Rightarrow> False
            | Some webhint \<Rightarrow>
                \<not> producedError webhint \<and> failure webhint = None \<and>
                telemetryOutcome en actions w = None)"
    by (cases rule: analyze_cases) simp_all
next
  assume ra: "readyAnalyzer en actions w = Some webhint"
  then have t: "getAsUris en (underscore actions) \<noteq> []"
    by (auto simp add: readyAnalyzer_def)
  from ra t obtain userConfig w1 w2 where
    l: "loadUserConfig en actions (getAsUris en (underscore actions)) w = (Inr userConfig, w1)" and
    b: "getAnalyzer en userConfig (actionsToOptions actions) (getAsUris en (underscore actions)) w1 =
         Some (Inr webhint, w2)"
    by (auto simp add: readyAnalyzer_def Let_def split: prod.splits sum.splits option.splits)
  show "if hangs webhint then analyze en actions w = None
       else (\<exists>w''. analyze en actions w =
               Some (Inr (\<not> producedError webhint \<and> failure webhint = None \<and>
                          telemetryOutcome en actions w = None), w''))"
  proof (cases "hangs webhint")
    case True
    then have "run en actions userConfig webhint (getAsUris en (underscore actions)) w2 = None"
      by (simp add: run_ends)
    with t l b True show ?thesis by (simp add: analyze_def)
  next
    case False
    then obtain ok w3 where
      rr: "run en actions userConfig webhint (getAsUris en (underscore actions)) w2 = Some (ok, w3)"
      using run_ends [of en actions userConfig webhint "getAsUris en (underscore actions)" w2]
      by (cases "run en actions userConfig webhint (getAsUris en (underscore actions)) w2") auto
    with t l b have an: "analyze en actions w = Some (Inr ok, w3)"
      by (simp add: analyze_def)
    then have "ok = (\<not> producedError webhint \<and> failure webhint = None \<and>
        telemetryOutcome en actions w = None)"
      using ra by (cases rule: analyze_cases) simp_all
    with an False show ?thesis by simp
  qed
qed

theorem analyze_exit_status_witness:
  "readyAnalyzer (env_with analyzerErr) actionsA world0 = Some analyzerErr \<and>
   producedError analyzerErr \<and> \<not> hangs analyzerErr \<and>
   (\<exists>w''. analyze (env_with analyzerErr) actionsA world0 = Some (Inr False, w'')) \<and>
   readyAnalyzer (env_with analyzerWarn) actionsA world0 = Some analyzerWarn \<and>
   \<not> producedError analyzerWarn \<and> failure analyzerWarn = None \<and> \<not> hangs analyzerWarn \<and>
   telemetryOutcome (env_with analyzerWarn) actionsA world0 = None \<and>
   analyze (env_with analyzerWarn) actionsA world0 = Some (Inr True, wWarn) \<and>
   readyAnalyzer envPromptThrows actionsA world1 = Some analyzerWarn \<and>
   telemetryOutcome envPromptThrows actionsA world1 = Some (Error ''prompt closed'') \<and>
   analyze envPromptThrows actionsA world1 = Some (Inr False, wPromptThrows) \<and>
   readyAnalyzer (env_with analyzerHang) actionsA world0 = Some analyzerHang \<and>
   hangs analyzerHang \<and>
   analyze (env_with analyzerHang) actionsA world0 = None"
proof -
  have e: "producedError analyzerErr" "\<not> hangs analyzerErr"
    by (simp_all add: producedError_def analyzerErr_def endHasError_def problem_def)
  have n: "\<not> producedError analyzerWarn" "failure analyzerWarn = None" "\<not> hangs analyzerWarn"
    by (simp_all add: producedError_def analyzerWarn_def endHasError_def problem_def)
  have h: "hangs analyzerHang"
    by (simp add: analyzerHang_def)
  from e n h ready_concrete(1,2) ready_prompt_throws run_warn run_prompt_throws
    analyze_exit_status [of "env_with analyzerErr" actionsA world0 _ _ analyzerErr]
    analyze_exit_status [of "env_with analyzerWarn" actionsA world0 True wWarn analyzerWarn]
    analyze_exit_status [of envPromptThrows actionsA world1 False wPromptThrows analyzerWarn]
    analyze_exit_status [of "env_with analyzerHang" actionsA world0 _ _ analyzerHang]
  show ?thesis by simp
qed

text \<open>
  The claim as stated fails: a run with zero targets, and a run whose analyzer construction
  fails with a hint error, report failure although the analyze call was never made, so no
  target produced a finding and nothing was thrown by it; and a run whose telemetry prompt
  throws reports failure although its only findings are a warning and a hint and its analyze
  call returned.
\<close>

theorem analyze_exit_status_counterexample:
  "analyze env0 actions0 world0 = Some (Inr False, world0) \<and> trace world0 = [] \<and>
   readyAnalyzer env0 actions0 world0 = None \<and>
   analyze envHint actionsA world0 = Some (Inr False, wHint) \<and>
   readyAnalyzer envHint actionsA world0 = None \<and>
   trace wHint = [GetUserConfig None, Log DefaultMessage,
                  CreateAnalyzer configA (actionsToOptions actionsA),
                  Log (InvalidHints [''no-such-hint''])] \<and>
   analyze envPromptThrows actionsA world1 = Some (Inr False, wPromptThrows) \<and>
   readyAnalyzer envPromptThrows actionsA world1 = Some analyzerWarn \<and>
   \<not> producedError analyzerWarn \<and> failure analyzerWarn = None \<and> \<not> hangs analyzerWarn"
  using run_hint ready_concrete(5,6) run_prompt_throws ready_prompt_throws(1)
  by (simp add: analyze_def env0_def actions0_def world0_def wHint_def bootA_def
      producedError_def analyzerWarn_def endHasError_def problem_def)

section \<open>The telemetry gate runs once, after a completed analysis\<close>

text \<open>
  Claim C8, as amended. In a run that returns, the telemetry gate is invoked once when an
  analyzer got ready and its analyze call returned without throwing, and not at all otherwise.
  When the analyze call throws, the run reports failure and sends no run-summary event; outside
  debug mode the last thing it does is to stop the spinner in the failed state, and in debug
  mode the spinner is not touched during the whole run.
\<close>

theorem telemetry_gate_once:
  assumes "analyze en actions w = Some (r, w')"
  shows "gateCalls (added w w') =
           (case readyAnalyzer en actions w of
              None \<Rightarrow> 0
            | Some webhint \<Rightarrow> (if failure webhint = None then 1 else 0)) \<and>
         (\<forall>webhint. readyAnalyzer en actions w = Some webhint \<and> failure webhint \<noteq> None \<longrightarrow>
            r = Inr False \<and> \<not> list_ex isRunOutcome (added w w') \<and>
            (if cli_debug actions then \<not> list_ex isSpinner (added w w')
             else last (trace w') = SpinnerFail))"
proof (cases "case readyAnalyzer en actions w of None \<Rightarrow> True | Some webhint \<Rightarrow> failure webhint \<noteq> None")
  case True
  from analyze_early_exit [OF assms True] have g: "grows (isRunEvent (cli_debug actions)) w w'" .
  note ga = grows_added [OF g]
  from ga have q: "list_all (isRunEvent (cli_debug actions)) (added w w')" by simp
  have c: "gateCalls (added w w') = 0"
    by (rule gateCalls_none) (rule run_events_exclude(2) [OF q])
  have o: "\<not> list_ex isRunOutcome (added w w')"
    by (rule not_list_ex) (rule run_events_exclude(3) [OF q])
  have s: "\<not> list_ex isSpinner (added w w')" if "cli_debug actions"
    by (rule not_list_ex) (rule run_events_exclude(4) [OF q that])
  have f: "r = Inr False \<and> (\<not> cli_debug actions \<longrightarrow> last (trace w') = SpinnerFail)"
    if "readyAnalyzer en actions w = Some webhint" "failure webhint \<noteq> None" for webhint
    using assms
  proof (cases rule: analyze_cases)
    case (Ran userConfig webhint' w1 w2)
    from run_world [OF Ran(9)] Ran(4,8) that show ?thesis
      by (auto simp add: endSpinner_def emit_simps)
  qed (use that in simp_all)
  from True c o s f show ?thesis by (auto split: option.splits)
next
  case False
  then obtain webhint where ra: "readyAnalyzer en actions w = Some webhint" and f: "failure webhint = None"
    by (auto split: option.splits)
  from assms show ?thesis
  proof (cases rule: analyze_cases)
    case (Ran userConfig webhint' w1 w2)
    with ra have [simp]: "webhint' = webhint" by simp
    define wh where "wh = afterHooks actions webhint (getAsUris en (underscore actions)) w2"
    have g: "grows (isRunEvent (cli_debug actions)) w wh"
      unfolding wh_def using Ran(5) by (rule grows_run_prefix)
    from g obtain evs0 where pre: "trace wh = trace w @ evs0"
      and q: "list_all (isRunEvent (cli_debug actions)) evs0"
      by (auto simp add: grows_def)
    define wg where "wg = snd (sendTelemetryIfEnabled en userConfig wh)"
    have w': "w' = wg \<or> w' = endSpinner actions SpinnerFail wg"
      using run_world [OF Ran(9)] f by (simp add: wh_def wg_def)
    from gate_trace [of en userConfig wh] obtain evg where
      tg: "trace wg = trace wh @ StoreGet alreadyRunKey # evg" and
      eg: "list_all (\<lambda>e. e \<noteq> StoreGet alreadyRunKey \<and> \<not> isSpinner e) evg"
      unfolding wg_def by blast
    have "\<exists>evs. trace w' = trace wh @ StoreGet alreadyRunKey # evs \<and>
        list_all (\<lambda>e. e \<noteq> StoreGet alreadyRunKey) evs"
    proof (cases "w' = wg \<or> cli_debug actions")
      case True
      with w' tg have "trace w' = trace wh @ StoreGet alreadyRunKey # evg"
        by (auto simp add: endSpinner_def)
      moreover from eg have "list_all (\<lambda>e. e \<noteq> StoreGet alreadyRunKey) evg"
        by (simp add: list_all_iff)
      ultimately show ?thesis by blast
    next
      case False
      with w' tg have "trace w' = trace wh @ StoreGet alreadyRunKey # (evg @ [SpinnerFail])"
        by (auto simp add: endSpinner_def emit_simps)
      moreover from eg have "list_all (\<lambda>e. e \<noteq> StoreGet alreadyRunKey) (evg @ [SpinnerFail])"
        by (simp add: list_all_iff)
      ultimately show ?thesis by blast
    qed
    then obtain evs where
      t: "trace w' = trace wh @ StoreGet alreadyRunKey # evs" and
      e: "list_all (\<lambda>e. e \<noteq> StoreGet alreadyRunKey) evs"
      by blast
    have "added w w' = evs0 @ StoreGet alreadyRunKey # evs"
      by (simp add: added_def t pre)
    moreover have "gateCalls evs0 = 0"
      by (rule gateCalls_none) (rule run_events_exclude(2) [OF q])
    moreover have "gateCalls evs = 0"
      using e by (intro gateCalls_none) (simp add: list_all_iff)
    ultimately have "gateCalls (added w w') = 1"
      by (simp add: gateCalls_append) (simp add: gateCalls_def)
    with ra f show ?thesis by simp
  qed (use ra in simp_all)
qed

theorem telemetry_gate_once_witness:
  "analyze (env_with analyzerWarn) actionsA world0 = Some (Inr True, wWarn) \<and>
   gateCalls (added world0 wWarn) = 1 \<and>
   analyze (env_with analyzerThrow) actionsA world0 = Some (Inr False, wThrow) \<and>
   gateCalls (added world0 wThrow) = 0 \<and>
   \<not> list_ex isRunOutcome (added world0 wThrow) \<and>
   last (trace wThrow) = SpinnerFail"
proof -
  have f: "failure analyzerWarn = None" "failure analyzerThrow \<noteq> None" "\<not> cli_debug actionsA"
    by (simp_all add: analyzerWarn_def analyzerThrow_def actionsA_def actions0_def)
  from f run_warn run_throw ready_concrete(2,3)
    telemetry_gate_once [OF run_warn] telemetry_gate_once [OF run_throw]
  show ?thesis by simp
qed

text \<open>
  The claim as stated fails in debug mode: the analyze call throws, the run reports failure, and
  the spinner is never put in the failed state.
\<close>

theorem telemetry_gate_once_counterexample:
  "analyze (env_with analyzerThrow) actionsD world0 = Some (Inr False, wThrowDebug) \<and>
   readyAnalyzer (env_with analyzerThrow) actionsD world0 = Some analyzerThrow \<and>
   failure analyzerThrow = Some (Error ''boom'') \<and>
   SpinnerFail \<notin> set (trace wThrowDebug)"
  using run_throw_debug ready_concrete(4)
  by (simp add: analyzerThrow_def wThrowDebug_def bootA_def)

section \<open>Early exits leave the persistent store alone\<close>

text \<open>
  Claim C10. A run that returns without reaching the telemetry step (zero targets, a
  configuration that cannot be loaded, a bootstrap that ends with an error, or an analyze call
  that throws) neither reads nor writes the persistent store: the store and the recorded consent
  are as before, so the first-run marker is still what it was and the next invocation is a first
  run if this one was.
\<close>

theorem store_unchanged_on_early_exit:
  assumes "analyze en actions w = Some (r, w')"
    and "case readyAnalyzer en actions w of None \<Rightarrow> True | Some webhint \<Rightarrow> failure webhint \<noteq> None"
  shows "configStore w' = configStore w \<and> telemetry w' = telemetry w \<and>
         \<not> list_ex isStoreEvent (added w w') \<and>
         (configStore w' alreadyRunKey = Some True) = (configStore w alreadyRunKey = Some True)"
proof -
  from analyze_early_exit [OF assms] have g: "grows (isRunEvent (cli_debug actions)) w w'" .
  then have "configStore w' = configStore w" "telemetry w' = telemetry w"
    by (simp_all add: grows_def)
  moreover from grows_added [OF g] have "list_all (\<lambda>e. \<not> isStoreEvent e) (added w w')"
    using run_events_exclude(1) by blast
  ultimately show ?thesis by (simp add: not_list_ex)
qed

theorem store_unchanged_on_early_exit_witness:
  "analyze (env_with analyzerThrow) actionsA world0 = Some (Inr False, wThrow) \<and>
   readyAnalyzer (env_with analyzerThrow) actionsA world0 = Some analyzerThrow \<and>
   failure analyzerThrow \<noteq> None \<and>
   configStore wThrow = configStore world0 \<and>
   \<not> list_ex isStoreEvent (added world0 wThrow) \<and>
   analyze envHint actionsA world0 = Some (Inr False, wHint) \<and>
   readyAnalyzer envHint actionsA world0 = None \<and>
   configStore wHint = configStore world0 \<and>
   configStore wHint alreadyRunKey \<noteq> Some True"
proof -
  have f: "failure analyzerThrow \<noteq> None" by (simp add: analyzerThrow_def)
  have a: "configStore world0 alreadyRunKey \<noteq> Some True" by (simp add: world0_def)
  from f a run_throw run_hint ready_concrete(3,5)
    store_unchanged_on_early_exit [OF run_throw] store_unchanged_on_early_exit [OF run_hint]
  show ?thesis by simp
qed

section \<open>Recovery from a resource error\<close>

lemmas install_defs = askToInstallPackages_def askUserToInstallDependencies_def
  showMissingAndIncompatiblePackages_def askQuestion_def installPackages_def

lemma askToInstallPackages_result:
  "fst (askToInstallPackages en resources w) =
     (case answers en (asked w)
             (InstallDependenciesQuestion (incompatible resources @ missing resources)) of
        Inl e \<Rightarrow> Inl e
      | Inr accepted \<Rightarrow>
          Inr (accepted \<and> install_results en (installs w) (missingPackages resources) \<and>
               install_results en (Suc (installs w)) (incompatiblePackages resources)))"
  by (simp add: install_defs Let_def emit_def split: prod.splits sum.splits)

lemma install_recovery_steps:
  assumes "constructions en (created w) userConfig options = Inl (AnalyzerErr (ResourceError resources))"
  shows
    "(let question = InstallDependenciesQuestion (incompatible resources @ missing resources);
          w2 = snd (askToInstallPackages en resources (snd (createAnalyzer en userConfig options w)));
          toInstall = missingPackages resources;
          toUpdate = incompatiblePackages resources;
          installedMissing = install_results en (installs w) toInstall;
          installedIncompatible = install_results en (Suc (installs w)) toUpdate
      in filter isCreate (added w w2) = [CreateAnalyzer userConfig options] \<and>
         (case answers en (asked w) question of
            Inl e \<Rightarrow>
              filter isAsk (added w w2) = [AskThrew question e] \<and>
              filter isInstall (added w w2) = [] \<and>
              getAnalyzer en userConfig options targets w = Some (Inl e, w2)
          | Inr accepted \<Rightarrow>
              filter isAsk (added w w2) = [Ask question accepted] \<and>
              filter isInstall (added w w2) =
                (if accepted
                 then Install toInstall installedMissing #
                      (if installedMissing then [Install toUpdate installedIncompatible] else [])
                 else []) \<and>
              getAnalyzer en userConfig options targets w =
                (if accepted \<and> installedMissing \<and> installedIncompatible
                 then getAnalyzer en userConfig options targets w2
                 else Some (Inl (AnalyzerErr (ResourceError resources)), w2))))"
proof -
  have c: "createAnalyzer en userConfig options w =
      (Inl (AnalyzerErr (ResourceError resources)),
       emit (CreateAnalyzer userConfig options) (w\<lparr>created := Suc (created w)\<rparr>))"
    using assms by (simp add: createAnalyzer_def)
  define w1 where "w1 = emit (CreateAnalyzer userConfig options) (w\<lparr>created := Suc (created w)\<rparr>)"
  define question where
    "question = InstallDependenciesQuestion (incompatible resources @ missing resources)"
  define installed where "installed = fst (askToInstallPackages en resources w1)"
  define w2 where "w2 = snd (askToInstallPackages en resources w1)"
  have i: "askToInstallPackages en resources w1 = (installed, w2)"
    by (simp add: installed_def w2_def)
  have g: "getAnalyzer en userConfig options targets w =
        (case installed of
           Inl e \<Rightarrow> Some (Inl e, w2)
         | Inr ok \<Rightarrow>
             (if ok then getAnalyzer en userConfig options targets w2
              else Some (Inl (AnalyzerErr (ResourceError resources)), w2)))"
    by (subst getAnalyzer.simps) (simp add: c w1_def [symmetric] i split: sum.splits)
  show ?thesis
  proof (cases "answers en (asked w) question")
    case (Inl e)
    then have r: "installed = Inl e"
      using askToInstallPackages_result [of en resources w1]
      by (simp add: installed_def w1_def emit_def question_def)
    have a: "filter isAsk (added w w2) = [AskThrew question e]"
      unfolding w2_def using Inl
      by (simp add: w1_def install_defs Let_def emit_def added_def isAsk_def question_def [symmetric]
          split: prod.splits if_split) ((simp add: question_def)?)
    have d: "filter isCreate (added w w2) = [CreateAnalyzer userConfig options]"
      unfolding w2_def using Inl
      by (simp add: w1_def install_defs Let_def emit_def added_def isCreate_def question_def [symmetric]
          split: prod.splits if_split) ((simp add: question_def)?)
    have b: "filter isInstall (added w w2) = []"
      unfolding w2_def using Inl
      by (simp add: w1_def install_defs Let_def emit_def added_def isInstall_def question_def [symmetric]
          split: prod.splits if_split) ((simp add: question_def)?)
    from a b d g r Inl show ?thesis
      by (simp add: Let_def c w1_def [symmetric] i question_def [symmetric])
  next
    case (Inr accepted)
    then have r: "installed = Inr (accepted \<and>
        install_results en (installs w) (missingPackages resources) \<and>
        install_results en (Suc (installs w)) (incompatiblePackages resources))"
      using askToInstallPackages_result [of en resources w1]
      by (simp add: installed_def w1_def emit_def question_def)
    have a: "filter isAsk (added w w2) = [Ask question accepted]"
      unfolding w2_def using Inr
      by (simp add: w1_def install_defs Let_def emit_def added_def isAsk_def question_def [symmetric]
          split: prod.splits if_split) ((simp add: question_def)?)
    have d: "filter isCreate (added w w2) = [CreateAnalyzer userConfig options]"
      unfolding w2_def using Inr
      by (simp add: w1_def install_defs Let_def emit_def added_def isCreate_def question_def [symmetric]
          split: prod.splits if_split) ((simp add: question_def)?)
    have b: "filter isInstall (added w w2) =
        (if accepted
         then Install (missingPackages resources)
                (install_results en (installs w) (missingPackages resources)) #
              (if install_results en (installs w) (missingPackages resources)
               then [Install (incompatiblePackages resources)
                       (install_results en (Suc (installs w)) (incompatiblePackages resources))]
               else [])
         else [])"
      unfolding w2_def using Inr
      by (simp add: w1_def install_defs Let_def emit_def added_def isInstall_def question_def [symmetric]
          split: prod.splits if_split) ((simp add: question_def)?)
    from a b d g r Inr show ?thesis
      by (simp add: Let_def c w1_def [symmetric] i question_def [symmetric])
  qed
qed

text \<open>
  Claim C3. When a construction fails with a resource error, the bootstrap asks once whether to
  install (about the incompatible and the missing packages together). If the answer is yes it
  installs every missing package, as \<^verbatim>\<open>@hint/name\<close>, and, if that succeeded, every
  incompatible package at its latest version, as \<^verbatim>\<open>@hint/name@latest\<close>. It constructs again,
  with the same configuration, only if the answer was yes and both installations succeeded;
  otherwise it ends with the original error, after this one construction attempt and with no
  further installation. If the question itself throws, the bootstrap ends with that exception,
  and nothing is installed.
\<close>

theorem resource_error_recovery:
  assumes "constructions en (created w) userConfig options = Inl (AnalyzerErr (ResourceError resources))"
  shows
    "(let question = InstallDependenciesQuestion (incompatible resources @ missing resources);
          w2 = snd (askToInstallPackages en resources (snd (createAnalyzer en userConfig options w)));
          toInstall = map (\<lambda>name. ''@hint/'' @ name) (missing resources);
          toUpdate = map (\<lambda>name. ''@hint/'' @ name @ ''@latest'') (incompatible resources);
          installedMissing = install_results en (installs w) toInstall;
          installedIncompatible = install_results en (Suc (installs w)) toUpdate
      in filter isCreate (added w w2) = [CreateAnalyzer userConfig options] \<and>
         (case answers en (asked w) question of
            Inl e \<Rightarrow>
              filter isAsk (added w w2) = [AskThrew question e] \<and>
              filter isInstall (added w w2) = [] \<and>
              getAnalyzer en userConfig options targets w = Some (Inl e, w2)
          | Inr accepted \<Rightarrow>
              filter isAsk (added w w2) = [Ask question accepted] \<and>
              filter isInstall (added w w2) =
                (if accepted
                 then Install toInstall installedMissing #
                      (if installedMissing then [Install toUpdate installedIncompatible] else [])
                 else []) \<and>
              getAnalyzer en userConfig options targets w =
                (if accepted \<and> installedMissing \<and> installedIncompatible
                 then getAnalyzer en userConfig options targets w2
                 else Some (Inl (AnalyzerErr (ResourceError resources)), w2))))"
  using install_recovery_steps [OF assms, of targets]
  unfolding missingPackages_def incompatiblePackages_def .

lemmas boot_defs = getAnalyzer.simps createAnalyzer_def askToInstallPackages_def
  askUserToInstallDependencies_def showMissingAndIncompatiblePackages_def askQuestion_def
  installPackages_def missingPackages_def incompatiblePackages_def
  askUserToUseDefaultConfiguration_def getDefaultConfiguration_def areFiles_def anyFile_def
  emit_def Let_def

theorem resource_error_recovery_witness:
  "constructions envResource (created world0) configA optionsA =
     Inl (AnalyzerErr (ResourceError resources0)) \<and>
   filter isInstall (added world0 wInstalled) =
     [Install [''@hint/hint-a'', ''@hint/parser-c''] True, Install [''@hint/hint-b@latest''] True] \<and>
   getAnalyzer envResource configA optionsA targetsA world0 = Some (Inr analyzerWarn, wInstalled) \<and>
   constructions envInstallFails (created world0) configA optionsA =
     Inl (AnalyzerErr (ResourceError resources0)) \<and>
   filter isInstall (added world0 wInstallFailed) =
     [Install [''@hint/hint-a'', ''@hint/parser-c''] True, Install [''@hint/hint-b@latest''] False] \<and>
   getAnalyzer envInstallFails configA optionsA targetsA world0 =
     Some (Inl (AnalyzerErr (ResourceError resources0)), wInstallFailed) \<and>
   constructions envInstallPromptThrows (created world0) configA optionsA =
     Inl (AnalyzerErr (ResourceError resources0)) \<and>
   filter isInstall (added world0 wInstallPromptThrows) = [] \<and>
   getAnalyzer envInstallPromptThrows configA optionsA targetsA world0 =
     Some (Inl (Error ''prompt closed''), wInstallPromptThrows)"
proof -
  have h1: "constructions envResource (created world0) configA optionsA =
      Inl (AnalyzerErr (ResourceError resources0))"
    by (simp add: envResource_def env0_def world0_def)
  have h2: "constructions envInstallFails (created world0) configA optionsA =
      Inl (AnalyzerErr (ResourceError resources0))"
    by (simp add: envInstallFails_def envResource_def env0_def world0_def)
  have h3: "constructions envInstallPromptThrows (created world0) configA optionsA =
      Inl (AnalyzerErr (ResourceError resources0))"
    by (simp add: envInstallPromptThrows_def envResource_def env0_def world0_def)
  have w1: "snd (askToInstallPackages envResource resources0
      (snd (createAnalyzer envResource configA optionsA world0))) =
      world0\<lparr>asked := 1, installs := 2, created := 1, trace := recoveryEvents True\<rparr>"
    by (simp add: boot_defs envResource_def env0_def world0_def resources0_def recoveryEvents_def)
  have w2: "snd (askToInstallPackages envInstallFails resources0
      (snd (createAnalyzer envInstallFails configA optionsA world0))) = wInstallFailed"
    by (simp add: boot_defs envInstallFails_def envResource_def env0_def world0_def resources0_def
        recoveryEvents_def wInstallFailed_def)
  have w3: "snd (askToInstallPackages envInstallPromptThrows resources0
      (snd (createAnalyzer envInstallPromptThrows configA optionsA world0))) = wInstallPromptThrows"
    by (simp add: boot_defs envInstallPromptThrows_def envResource_def env0_def world0_def
        resources0_def recoveryEvents_def wInstallPromptThrows_def)
  have retry: "getAnalyzer envResource configA optionsA targetsA
      (world0\<lparr>asked := 1, installs := 2, created := 1, trace := recoveryEvents True\<rparr>) =
      Some (Inr analyzerWarn, wInstalled)"
    by (simp add: boot_defs envResource_def env0_def world0_def wInstalled_def)
  have i: "filter isInstall (added world0 wInstalled) =
      [Install [''@hint/hint-a'', ''@hint/parser-c''] True, Install [''@hint/hint-b@latest''] True]"
    "filter isInstall (added world0 wInstallFailed) =
      [Install [''@hint/hint-a'', ''@hint/parser-c''] True, Install [''@hint/hint-b@latest''] False]"
    "filter isInstall (added world0 wInstallPromptThrows) = []"
    by (simp_all add: added_def world0_def wInstalled_def wInstallFailed_def
        wInstallPromptThrows_def recoveryEvents_def isInstall_def)
  from resource_error_recovery [OF h1, of targetsA] resource_error_recovery [OF h2, of targetsA]
    resource_error_recovery [OF h3, of targetsA] h1 h2 h3 w1 w2 w3 retry i
  show ?thesis
    by (simp add: Let_def envResource_def envInstallFails_def envInstallPromptThrows_def env0_def
        world0_def resources0_def)
qed

section \<open>Termination of the bootstrap\<close>

lemma counters_createAnalyzer:
  "createAnalyzer en c opts w = (r, w1) \<Longrightarrow>
     constructions en (created w) c opts = r \<and> created w1 = Suc (created w) \<and> asked w1 = asked w"
  by (auto simp add: createAnalyzer_def emit_simps)

lemma counters_askUserToUseDefaultConfiguration:
  "askUserToUseDefaultConfiguration en targets w = (r, w2) \<Longrightarrow>
     created w2 = created w \<and> asked w2 = Suc (asked w)"
  by (auto simp add: askUserToUseDefaultConfiguration_def getDefaultConfiguration_def askQuestion_def
      Let_def emit_simps split: if_splits sum.splits prod.splits)

lemma counters_askToInstallPackages:
  "askToInstallPackages en resources w = (r, w2) \<Longrightarrow>
     created w2 = created w \<and> asked w2 = Suc (asked w)"
  by (auto simp add: install_defs Let_def emit_simps split: if_splits prod.splits sum.splits)

lemma getDefaultConfiguration_fst:
  "fst (getDefaultConfiguration en targets w) = fst (getDefaultConfiguration en targets w')"
  by (simp add: getDefaultConfiguration_def Let_def)

lemma default_accepted_config:
  "askUserToUseDefaultConfiguration en targets w = (Inr (Some config), w2) \<Longrightarrow>
     fst (getDefaultConfiguration en targets w') = Inr config"
  using getDefaultConfiguration_fst [of en targets w' "snd (askQuestion en DefaultConfigurationQuestion w)"]
  by (auto simp add: askUserToUseDefaultConfiguration_def Let_def
      split: if_splits sum.splits prod.splits)

lemma tried_shift:
  "tried en options dflt userConfig c0 (Suc n) =
     tried en options dflt (tried en options dflt userConfig c0 (Suc 0)) (Suc c0) n"
  by (induction n) simp_all


text \<open>
  One call either ends, after at most one question, or meets a recoverable error and, after one
  question, calls itself: with the default configuration after a \<open>ConfigurationError\<close>, with
  the same configuration after a \<open>ResourceError\<close>.
\<close>

lemma getAnalyzer_step:
  "(\<exists>r w' p. getAnalyzer en userConfig options targets w = Some (r, w') \<and>
       created w' = Suc (created w) \<and> asked w' = asked w + p \<and> p \<le> 1) \<or>
   (recoverable (constructions en (created w) userConfig options) \<and>
     (\<exists>config w2. getAnalyzer en userConfig options targets w = getAnalyzer en config options targets w2 \<and>
        created w2 = Suc (created w) \<and> asked w2 = Suc (asked w) \<and>
        (if constructions en (created w) userConfig options = Inl (AnalyzerErr ConfigurationError)
         then fst (getDefaultConfiguration en targets w) = Inr config
         else config = userConfig)))"
proof -
  obtain r w1 where c: "createAnalyzer en userConfig options w = (r, w1)"
    by (cases "createAnalyzer en userConfig options w")
  note c1 = counters_createAnalyzer [OF c]
  show ?thesis
  proof (cases r)
    case (Inr webhint)
    have "getAnalyzer en userConfig options targets w = Some (Inr webhint, w1)"
      using c Inr by (subst getAnalyzer.simps) simp
    moreover have "asked w1 = asked w + 0" using c1 by simp
    ultimately show ?thesis using c1 by (metis zero_le_one)
  next
    case (Inl e)
    show ?thesis
    proof (cases e)
      case (Error m)
      have "getAnalyzer en userConfig options targets w = Some (Inl e, emit (Log (ErrorMessage e)) w1)"
        using c Inl Error by (subst getAnalyzer.simps) simp
      moreover have "created (emit (Log (ErrorMessage e)) w1) = Suc (created w)"
        "asked (emit (Log (ErrorMessage e)) w1) = asked w + 0"
        using c1 by (simp_all add: emit_simps)
      ultimately show ?thesis by (metis zero_le_one)
    next
      case (AnalyzerErr ae)
      show ?thesis
      proof (cases ae)
        case ConfigurationError
        obtain rd w2 where d: "askUserToUseDefaultConfiguration en targets w1 = (rd, w2)"
          by (cases "askUserToUseDefaultConfiguration en targets w1")
        note d1 = counters_askUserToUseDefaultConfiguration [OF d]
        have ce: "constructions en (created w) userConfig options = Inl (AnalyzerErr ConfigurationError)"
          using c1 Inl AnalyzerErr ConfigurationError by simp
        then have rec: "recoverable (constructions en (created w) userConfig options)"
          by (simp add: recoverable_def)
        show ?thesis
        proof (cases rd)
          case (Inl e')
          have "getAnalyzer en userConfig options targets w = Some (Inl e', w2)"
            using c d \<open>r = Inl e\<close> AnalyzerErr ConfigurationError Inl
            by (subst getAnalyzer.simps) simp
          with c1 d1 show ?thesis by auto
        next
          case (Inr oc)
          show ?thesis
          proof (cases oc)
            case None
            have "getAnalyzer en userConfig options targets w = Some (Inl e, w2)"
              using c d \<open>r = Inl e\<close> AnalyzerErr ConfigurationError Inr None
              by (subst getAnalyzer.simps) simp
            with c1 d1 show ?thesis by auto
          next
            case (Some config)
            have "getAnalyzer en userConfig options targets w = getAnalyzer en config options targets w2"
              using c d \<open>r = Inl e\<close> AnalyzerErr ConfigurationError Inr Some
              by (subst getAnalyzer.simps) simp
            moreover have "fst (getDefaultConfiguration en targets w) = Inr config"
              using d Inr Some by (intro default_accepted_config [of en targets w1 config w2]) simp
            ultimately show ?thesis using rec ce c1 d1 by auto
          qed
        qed
      next
        case (ResourceError resources)
        obtain installed w2 where i: "askToInstallPackages en resources w1 = (installed, w2)"
          by (cases "askToInstallPackages en resources w1")
        note i1 = counters_askToInstallPackages [OF i]
        have re: "constructions en (created w) userConfig options =
            Inl (AnalyzerErr (ResourceError resources))"
          using c1 Inl AnalyzerErr ResourceError by simp
        then have rec: "recoverable (constructions en (created w) userConfig options)"
          by (simp add: recoverable_def)
        show ?thesis
        proof (cases installed)
          case (Inl e')
          have "getAnalyzer en userConfig options targets w = Some (Inl e', w2)"
            using c i \<open>r = Inl e\<close> AnalyzerErr ResourceError Inl
            by (subst getAnalyzer.simps) simp
          with c1 i1 show ?thesis by auto
        next
          case (Inr ok)
          show ?thesis
          proof (cases ok)
            case False
            have "getAnalyzer en userConfig options targets w = Some (Inl e, w2)"
              using c i \<open>r = Inl e\<close> AnalyzerErr ResourceError Inr False
              by (subst getAnalyzer.simps) simp
            with c1 i1 show ?thesis by auto
          next
            case True
            have "getAnalyzer en userConfig options targets w =
                getAnalyzer en userConfig options targets w2"
              using c i \<open>r = Inl e\<close> AnalyzerErr ResourceError Inr True
              by (subst getAnalyzer.simps) simp
            with rec re c1 i1 show ?thesis by auto
          qed
        qed
      next
        case (HintError invalidHints)
        have "getAnalyzer en userConfig options targets w =
            Some (Inl e, emit (Log (InvalidHints invalidHints)) w1)"
          using c Inl AnalyzerErr HintError by (subst getAnalyzer.simps) simp
        moreover have "created (emit (Log (InvalidHints invalidHints)) w1) = Suc (created w)"
          "asked (emit (Log (InvalidHints invalidHints)) w1) = asked w + 0"
          using c1 by (simp_all add: emit_simps)
        ultimately show ?thesis by (metis zero_le_one)
      next
        case ConnectorError
        have "getAnalyzer en userConfig options targets w = Some (Inl e, emit (Log InvalidConnector) w1)"
          using c Inl AnalyzerErr ConnectorError by (subst getAnalyzer.simps) simp
        moreover have "created (emit (Log InvalidConnector) w1) = Suc (created w)"
          "asked (emit (Log InvalidConnector) w1) = asked w + 0"
          using c1 by (simp_all add: emit_simps)
        ultimately show ?thesis by (metis zero_le_one)
      qed
    qed
  qed
qed

lemma getAnalyzer_returns:
  assumes "\<forall>c. fst (getDefaultConfiguration en targets wd) = Inr c \<longrightarrow> c = dflt"
    and "\<not> recoverable (constructions en (created w + n)
            (tried en options dflt userConfig (created w) n) options)"
  shows "\<exists>r w' k p. getAnalyzer en userConfig options targets w = Some (r, w') \<and>
           created w' = created w + Suc k \<and> asked w' = asked w + p \<and> k \<le> n \<and> k \<le> p \<and> p \<le> Suc k"
  using assms(2)
proof (induction n arbitrary: w userConfig)
  case 0
  from getAnalyzer_step [of en userConfig options targets w] "0.prems"
  obtain r w' p where "getAnalyzer en userConfig options targets w = Some (r, w')"
    "created w' = Suc (created w)" "asked w' = asked w + p" "p \<le> 1"
    by auto
  then show ?case by (intro exI [of _ r] exI [of _ w'] exI [of _ 0] exI [of _ p]) simp
next
  case (Suc n)
  from getAnalyzer_step [of en userConfig options targets w]
  show ?case
  proof (elim disjE exE conjE)
    fix r w' p
    assume "getAnalyzer en userConfig options targets w = Some (r, w')"
      "created w' = Suc (created w)" "asked w' = asked w + p" "p \<le> 1"
    then show ?thesis by (intro exI [of _ r] exI [of _ w'] exI [of _ 0] exI [of _ p]) simp
  next
    fix config w2
    assume eq: "getAnalyzer en userConfig options targets w = getAnalyzer en config options targets w2"
      and cr: "created w2 = Suc (created w)" and ak: "asked w2 = Suc (asked w)"
      and cf: "if constructions en (created w) userConfig options = Inl (AnalyzerErr ConfigurationError)
         then fst (getDefaultConfiguration en targets w) = Inr config
         else config = userConfig"
    have "config = tried en options dflt userConfig (created w) (Suc 0)"
      using cf assms(1) getDefaultConfiguration_fst [of en targets w wd]
      by (auto split: if_splits)
    with Suc.prems cr tried_shift [of en options dflt userConfig "created w" n]
    have "\<not> recoverable (constructions en (created w2 + n)
            (tried en options dflt config (created w2) n) options)"
      by simp
    from Suc.IH [OF this] obtain r w' k p where
      "getAnalyzer en config options targets w2 = Some (r, w')"
      "created w' = created w2 + Suc k" "asked w' = asked w2 + p" "k \<le> n" "k \<le> p" "p \<le> Suc k"
      by blast
    with eq cr ak show ?thesis
      by (intro exI [of _ r] exI [of _ w'] exI [of _ "Suc k"] exI [of _ "Suc p"]) simp
  qed
qed

lemma getAnalyzer_default_accepted:
  assumes "constructions en (created w) userConfig options = Inl (AnalyzerErr ConfigurationError)"
    and "answers en (asked w) DefaultConfigurationQuestion = Inr True"
    and "fst (getDefaultConfiguration en targets w) = Inr config"
  shows "getAnalyzer en userConfig options targets w =
     getAnalyzer en config options targets
       (w\<lparr>created := Suc (created w), asked := Suc (asked w),
          trace := trace w @ [CreateAnalyzer userConfig options,
                              Ask DefaultConfigurationQuestion True, Log DefaultMessage]\<rparr>)"
proof -
  have "fst (getDefaultConfiguration en targets w') = Inr config" for w'
    using assms(3) getDefaultConfiguration_fst [of en targets w w'] by simp
  then have d: "getDefaultConfiguration en targets w' = (Inr config, emit (Log DefaultMessage) w')" for w'
    by (cases "getDefaultConfiguration en targets w'")
      (auto simp add: getDefaultConfiguration_def Let_def split: if_splits)
  show ?thesis
    using assms(1,2)
    by (subst getAnalyzer.simps)
      (simp add: createAnalyzer_def askUserToUseDefaultConfiguration_def askQuestion_def d Let_def
        emit_def)
qed

lemma getAnalyzer_default_declined:
  assumes "constructions en (created w) userConfig options = Inl (AnalyzerErr ConfigurationError)"
    and "answers en (asked w) DefaultConfigurationQuestion = Inr False"
  shows "getAnalyzer en userConfig options targets w =
     Some (Inl (AnalyzerErr ConfigurationError),
       w\<lparr>created := Suc (created w), asked := Suc (asked w),
          trace := trace w @ [CreateAnalyzer userConfig options,
                              Ask DefaultConfigurationQuestion False]\<rparr>)"
  using assms
  by (subst getAnalyzer.simps)
    (simp add: createAnalyzer_def askUserToUseDefaultConfiguration_def askQuestion_def Let_def
      emit_def)

text \<open>
  Claim C2, as amended. Nothing in the bootstrap bounds the recoveries per failure kind: it
  recovers once for every recoverable error the boundary returns. If the boundary answers the
  construction attempt number \<open>n\<close> from now, made with the configuration the bootstrap tries
  at that attempt, with a ready analyzer or an unrecoverable error, the bootstrap returns after
  at most \<open>n\<close> retries, and it has asked one question for each retry and at most one more.
  In particular, after a \<open>ConfigurationError\<close> recovered by accepting the default
  configuration, the bootstrap constructs again with the default configuration; when that
  construction succeeds it returns that analyzer after this single retry and single question,
  and when that construction fails with a \<open>ConfigurationError\<close> again it asks the same
  question again, within the retry, and retries again if the answer is yes.
\<close>

theorem bootstrap_bounded_by_boundary:
  "((\<forall>c. fst (getDefaultConfiguration en targets w) = Inr c \<longrightarrow> c = dflt) \<and>
    \<not> recoverable (constructions en (created w + n)
         (tried en options dflt userConfig (created w) n) options) \<longrightarrow>
      (\<exists>r w' k p. getAnalyzer en userConfig options targets w = Some (r, w') \<and>
         created w' = created w + Suc k \<and> asked w' = asked w + p \<and> k \<le> n \<and> k \<le> p \<and> p \<le> Suc k)) \<and>
   (constructions en (created w) userConfig options = Inl (AnalyzerErr ConfigurationError) \<and>
    answers en (asked w) DefaultConfigurationQuestion = Inr True \<and>
    fst (getDefaultConfiguration en targets w) = Inr config \<longrightarrow>
      (constructions en (Suc (created w)) config options = Inr webhint \<longrightarrow>
         getAnalyzer en userConfig options targets w =
           Some (Inr webhint,
             w\<lparr>created := Suc (Suc (created w)), asked := Suc (asked w),
               trace := trace w @ [CreateAnalyzer userConfig options,
                                   Ask DefaultConfigurationQuestion True, Log DefaultMessage,
                                   CreateAnalyzer config options]\<rparr>)) \<and>
      (constructions en (Suc (created w)) config options = Inl (AnalyzerErr ConfigurationError) \<and>
       answers en (Suc (asked w)) DefaultConfigurationQuestion = Inr again \<longrightarrow>
         (\<exists>w2. getAnalyzer en userConfig options targets w =
                  (if again then getAnalyzer en config options targets w2
                   else Some (Inl (AnalyzerErr ConfigurationError), w2)) \<and>
               created w2 = Suc (Suc (created w)) \<and>
               filter isAsk (added w w2) =
                 [Ask DefaultConfigurationQuestion True, Ask DefaultConfigurationQuestion again])))"
proof (intro conjI impI)
  assume "(\<forall>c. fst (getDefaultConfiguration en targets w) = Inr c \<longrightarrow> c = dflt) \<and>
    \<not> recoverable (constructions en (created w + n)
         (tried en options dflt userConfig (created w) n) options)"
  then show "\<exists>r w' k p. getAnalyzer en userConfig options targets w = Some (r, w') \<and>
         created w' = created w + Suc k \<and> asked w' = asked w + p \<and> k \<le> n \<and> k \<le> p \<and> p \<le> Suc k"
    by (intro getAnalyzer_returns [of en targets w dflt]) simp_all
next
  assume a: "constructions en (created w) userConfig options = Inl (AnalyzerErr ConfigurationError) \<and>
    answers en (asked w) DefaultConfigurationQuestion = Inr True \<and>
    fst (getDefaultConfiguration en targets w) = Inr config"
  define w1 where "w1 = w\<lparr>created := Suc (created w), asked := Suc (asked w),
          trace := trace w @ [CreateAnalyzer userConfig options,
                              Ask DefaultConfigurationQuestion True, Log DefaultMessage]\<rparr>"
  from a have first: "getAnalyzer en userConfig options targets w =
      getAnalyzer en config options targets w1"
    unfolding w1_def by (intro getAnalyzer_default_accepted) simp_all
  {
    assume b: "constructions en (Suc (created w)) config options = Inr webhint"
    have "getAnalyzer en config options targets w1 = Some (Inr webhint,
          w\<lparr>created := Suc (Suc (created w)), asked := Suc (asked w),
            trace := trace w @ [CreateAnalyzer userConfig options,
                                Ask DefaultConfigurationQuestion True, Log DefaultMessage,
                                CreateAnalyzer config options]\<rparr>)"
      using b by (subst getAnalyzer.simps) (simp add: createAnalyzer_def emit_def w1_def)
    with first show "getAnalyzer en userConfig options targets w =
        Some (Inr webhint,
          w\<lparr>created := Suc (Suc (created w)), asked := Suc (asked w),
            trace := trace w @ [CreateAnalyzer userConfig options,
                                Ask DefaultConfigurationQuestion True, Log DefaultMessage,
                                CreateAnalyzer config options]\<rparr>)"
      by simp
  }
  {
    assume b: "constructions en (Suc (created w)) config options = Inl (AnalyzerErr ConfigurationError) \<and>
       answers en (Suc (asked w)) DefaultConfigurationQuestion = Inr again"
    have d: "fst (getDefaultConfiguration en targets w1) = Inr config"
      using a getDefaultConfiguration_fst [of en targets w1 w] by simp
    have c1: "constructions en (created w1) config options = Inl (AnalyzerErr ConfigurationError)"
      and a1: "answers en (asked w1) DefaultConfigurationQuestion = Inr again"
      using b by (simp_all add: w1_def)
    show "\<exists>w2. getAnalyzer en userConfig options targets w =
                  (if again then getAnalyzer en config options targets w2
                   else Some (Inl (AnalyzerErr ConfigurationError), w2)) \<and>
               created w2 = Suc (Suc (created w)) \<and>
               filter isAsk (added w w2) =
                 [Ask DefaultConfigurationQuestion True, Ask DefaultConfigurationQuestion again]"
    proof (cases again)
      case True
      with a1 have "answers en (asked w1) DefaultConfigurationQuestion = Inr True" by simp
      from getAnalyzer_default_accepted [OF c1 this d] first True
      show ?thesis
        by (intro exI [of _ "w1\<lparr>created := Suc (created w1), asked := Suc (asked w1),
              trace := trace w1 @ [CreateAnalyzer config options,
                Ask DefaultConfigurationQuestion True, Log DefaultMessage]\<rparr>"])
          (simp add: w1_def added_def isAsk_def)
    next
      case False
      with a1 have "answers en (asked w1) DefaultConfigurationQuestion = Inr False" by simp
      from getAnalyzer_default_declined [OF c1 this] first False
      show ?thesis
        by (intro exI [of _ "w1\<lparr>created := Suc (created w1), asked := Suc (asked w1),
              trace := trace w1 @ [CreateAnalyzer config options,
                Ask DefaultConfigurationQuestion False]\<rparr>"])
          (simp add: w1_def added_def isAsk_def)
    qed
  }
qed

theorem bootstrap_bounded_by_boundary_witness:
  "fst (getDefaultConfiguration envOnlyDefault targetsA world0) = Inr defaultA \<and>
   recoverable (constructions envOnlyDefault (created world0)
      (tried envOnlyDefault optionsA defaultA configA (created world0) 0) optionsA) \<and>
   \<not> recoverable (constructions envOnlyDefault (created world0 + 1)
      (tried envOnlyDefault optionsA defaultA configA (created world0) 1) optionsA) \<and>
   recoverable (constructions envOnlyDefault (created world0 + 1) configA optionsA) \<and>
   (\<exists>r w' k p. getAnalyzer envOnlyDefault configA optionsA targetsA world0 = Some (r, w') \<and>
      created w' = created world0 + Suc k \<and> asked w' = asked world0 + p \<and>
      k \<le> 1 \<and> k \<le> p \<and> p \<le> Suc k) \<and>
   constructions envOnce (created world0) configA optionsA = Inl (AnalyzerErr ConfigurationError) \<and>
   answers envOnce (asked world0) DefaultConfigurationQuestion = Inr True \<and>
   fst (getDefaultConfiguration envOnce targetsA world0) = Inr defaultA \<and>
   constructions envOnce (Suc (created world0)) defaultA optionsA = Inr analyzerWarn \<and>
   getAnalyzer envOnce configA optionsA targetsA world0 = Some (Inr analyzerWarn, wOnce) \<and>
   constructions envTwice (created world0) configA optionsA = Inl (AnalyzerErr ConfigurationError) \<and>
   answers envTwice (asked world0) DefaultConfigurationQuestion = Inr True \<and>
   fst (getDefaultConfiguration envTwice targetsA world0) = Inr defaultA \<and>
   constructions envTwice (Suc (created world0)) defaultA optionsA =
     Inl (AnalyzerErr ConfigurationError) \<and>
   answers envTwice (Suc (asked world0)) DefaultConfigurationQuestion = Inr True \<and>
   (\<exists>w2. getAnalyzer envTwice configA optionsA targetsA world0 =
            getAnalyzer envTwice defaultA optionsA targetsA w2 \<and>
          created w2 = Suc (Suc (created world0)) \<and>
          filter isAsk (added world0 w2) =
            [Ask DefaultConfigurationQuestion True, Ask DefaultConfigurationQuestion True])"
proof -
  have h: "fst (getDefaultConfiguration envOnlyDefault targetsA world0) = Inr defaultA"
    "recoverable (constructions envOnlyDefault (created world0)
      (tried envOnlyDefault optionsA defaultA configA (created world0) 0) optionsA)"
    "\<not> recoverable (constructions envOnlyDefault (created world0 + 1)
      (tried envOnlyDefault optionsA defaultA configA (created world0) 1) optionsA)"
    "recoverable (constructions envOnlyDefault (created world0 + 1) configA optionsA)"
    by (simp_all add: recoverable_def envOnlyDefault_def env0_def world0_def
        getDefaultConfiguration_def areFiles_def anyFile_def targetsA_def defaultA_def configA_def
        emptyConfig_def Let_def)
  have a: "constructions envOnce (created world0) configA optionsA = Inl (AnalyzerErr ConfigurationError)"
    "answers envOnce (asked world0) DefaultConfigurationQuestion = Inr True"
    "fst (getDefaultConfiguration envOnce targetsA world0) = Inr defaultA"
    "constructions envOnce (Suc (created world0)) defaultA optionsA = Inr analyzerWarn"
    by (simp_all add: envOnce_def env0_def world0_def getDefaultConfiguration_def areFiles_def
        anyFile_def targetsA_def defaultA_def Let_def)
  have b: "constructions envTwice (created world0) configA optionsA = Inl (AnalyzerErr ConfigurationError)"
    "answers envTwice (asked world0) DefaultConfigurationQuestion = Inr True"
    "fst (getDefaultConfiguration envTwice targetsA world0) = Inr defaultA"
    "constructions envTwice (Suc (created world0)) defaultA optionsA =
       Inl (AnalyzerErr ConfigurationError)"
    "answers envTwice (Suc (asked world0)) DefaultConfigurationQuestion = Inr True"
    by (simp_all add: envTwice_def env0_def world0_def getDefaultConfiguration_def areFiles_def
        anyFile_def targetsA_def defaultA_def Let_def)
  from h a b
    bootstrap_bounded_by_boundary [of envOnlyDefault targetsA world0 defaultA 1 optionsA configA]
    bootstrap_bounded_by_boundary [of envOnce targetsA world0 _ _ optionsA configA defaultA
      analyzerWarn]
    bootstrap_bounded_by_boundary [of envTwice targetsA world0 _ _ optionsA configA defaultA _ True]
  show ?thesis
    by (simp add: wOnce_def world0_def defaultA_def)
qed

text \<open>
  The claim as stated fails. When every construction fails with a \<open>ConfigurationError\<close> and
  every question is answered yes, the bootstrap never returns; and when the first two
  constructions fail so, the bootstrap asks the same question again within the retry.
\<close>

lemma forever_never_returns:
  assumes "getAnalyzer envForever userConfig optionsA targetsA w = Some y"
  shows False
  using assms
proof (induction rule: getAnalyzer_induct)
  case (DefaultThrows userConfig w w1 e' w2)
  then show ?case
    by (simp add: askUserToUseDefaultConfiguration_def askQuestion_def getDefaultConfiguration_def
        areFiles_def anyFile_def Let_def envForever_def env0_def targetsA_def split: prod.splits)
next
  case (Declined userConfig w w1 w2)
  then show ?case
    by (simp add: askUserToUseDefaultConfiguration_def askQuestion_def getDefaultConfiguration_def
        areFiles_def anyFile_def Let_def envForever_def env0_def targetsA_def split: prod.splits)
qed (simp_all add: createAnalyzer_def envForever_def)

theorem bootstrap_bounded_by_boundary_counterexample:
  "getAnalyzer envForever configA optionsA targetsA world0 = None \<and>
   getAnalyzer envTwice configA optionsA targetsA world0 = Some (Inr analyzerWarn, wTwice) \<and>
   filter isAsk (trace wTwice) =
     [Ask DefaultConfigurationQuestion True, Ask DefaultConfigurationQuestion True]"
proof (intro conjI)
  show "getAnalyzer envForever configA optionsA targetsA world0 = None"
    using forever_never_returns [of configA world0] by (cases "getAnalyzer envForever configA optionsA targetsA world0") auto
  show "getAnalyzer envTwice configA optionsA targetsA world0 = Some (Inr analyzerWarn, wTwice)"
    by (simp add: boot_defs envTwice_def env0_def world0_def wTwice_def targetsA_def defaultA_def)
  show "filter isAsk (trace wTwice) =
     [Ask DefaultConfigurationQuestion True, Ask DefaultConfigurationQuestion True]"
    by (simp add: wTwice_def world0_def isAsk_def)
qed

section \<open>Mixed local and remote targets\<close>

lemma mixed_files: "mixed targets \<Longrightarrow> \<not> areFiles targets \<and> anyFile targets"
  by (auto simp add: mixed_def areFiles_def anyFile_def list_all_iff list_ex_iff)

lemma getDefaultConfiguration_mixed:
  "mixed targets \<Longrightarrow>
     getDefaultConfiguration en targets w = (Inl mixedTargetsError, emit (Log DefaultMessage) w)"
  using mixed_files [of targets] by (simp add: getDefaultConfiguration_def Let_def)

text \<open>
  Claim C4, as amended. The check for mixed targets is part of computing the default
  configuration. For a target list with both a \<open>file:\<close> target and another one, computing
  the default fails with the usage error before a preset is chosen, so: when no user
  configuration is found, configuration resolution and the whole run fail with the usage error,
  having only looked for the configuration and printed the default-configuration message; when
  the user accepts the default after
  a \<open>ConfigurationError\<close>, the bootstrap fails with the usage error and does not retry. When a
  user configuration is found, resolution returns it and makes no check.
\<close>

theorem mixed_targets_usage_error:
  "mixed targets \<longrightarrow>
     getDefaultConfiguration en targets w = (Inl mixedTargetsError, emit (Log DefaultMessage) w) \<and>
     (getUserConfig en (cli_config actions) = None \<longrightarrow>
        loadUserConfig en actions targets w =
          (Inl mixedTargetsError,
           emit (Log DefaultMessage) (emit (GetUserConfig (cli_config actions)) w)) \<and>
        (getAsUris en (underscore actions) = targets \<longrightarrow>
           analyze en actions w =
             Some (Inl mixedTargetsError,
                   emit (Log DefaultMessage) (emit (GetUserConfig (cli_config actions)) w)))) \<and>
     (\<forall>userConfig. getUserConfig en (cli_config actions) = Some userConfig \<longrightarrow>
        loadUserConfig en actions targets w =
          (Inr (mergeEnvWithOptions en
                  (userConfig\<lparr>language := Some (getLanguage en userConfig actions)\<rparr>)),
           emit (GetUserConfig (cli_config actions)) w)) \<and>
     (constructions en (created w) userConfig' options = Inl (AnalyzerErr ConfigurationError) \<and>
      answers en (asked w) DefaultConfigurationQuestion = Inr True \<longrightarrow>
        getAnalyzer en userConfig' options targets w =
          Some (Inl mixedTargetsError,
            w\<lparr>created := Suc (created w), asked := Suc (asked w),
              trace := trace w @ [CreateAnalyzer userConfig' options,
                                  Ask DefaultConfigurationQuestion True, Log DefaultMessage]\<rparr>))"
proof (intro impI conjI allI)
  assume m: "mixed targets"
  then show d: "getDefaultConfiguration en targets w = (Inl mixedTargetsError, emit (Log DefaultMessage) w)"
    by (rule getDefaultConfiguration_mixed)
  {
    assume n: "getUserConfig en (cli_config actions) = None"
    with getDefaultConfiguration_mixed [OF m, of en "emit (GetUserConfig (cli_config actions)) w"]
    show l: "loadUserConfig en actions targets w =
        (Inl mixedTargetsError,
         emit (Log DefaultMessage) (emit (GetUserConfig (cli_config actions)) w))"
      by (simp add: loadUserConfig_def)
    assume t: "getAsUris en (underscore actions) = targets"
    from m have "targets \<noteq> []" by (auto simp add: mixed_def)
    with t l show "analyze en actions w =
        Some (Inl mixedTargetsError,
              emit (Log DefaultMessage) (emit (GetUserConfig (cli_config actions)) w))"
      by (simp add: analyze_def)
  }
  {
    fix userConfig
    assume "getUserConfig en (cli_config actions) = Some userConfig"
    then show "loadUserConfig en actions targets w =
          (Inr (mergeEnvWithOptions en
                  (userConfig\<lparr>language := Some (getLanguage en userConfig actions)\<rparr>)),
           emit (GetUserConfig (cli_config actions)) w)"
      by (simp add: loadUserConfig_def)
  }
  {
    assume "constructions en (created w) userConfig' options = Inl (AnalyzerErr ConfigurationError) \<and>
      answers en (asked w) DefaultConfigurationQuestion = Inr True"
    then show "getAnalyzer en userConfig' options targets w =
          Some (Inl mixedTargetsError,
            w\<lparr>created := Suc (created w), asked := Suc (asked w),
              trace := trace w @ [CreateAnalyzer userConfig' options,
                                  Ask DefaultConfigurationQuestion True, Log DefaultMessage]\<rparr>)"
      by (subst getAnalyzer.simps)
        (simp add: createAnalyzer_def askUserToUseDefaultConfiguration_def askQuestion_def
          getDefaultConfiguration_mixed [OF m] Let_def emit_def)
  }
qed

theorem mixed_targets_usage_error_witness:
  "mixed targetsMixed \<and>
   getDefaultConfiguration env0 targetsMixed world0 =
     (Inl mixedTargetsError, emit (Log DefaultMessage) world0) \<and>
   getUserConfig env0 (cli_config actionsMixed) = None \<and>
   getAsUris env0 (underscore actionsMixed) = targetsMixed \<and>
   analyze env0 actionsMixed world0 =
     Some (Inl mixedTargetsError,
           emit (Log DefaultMessage) (emit (GetUserConfig (cli_config actionsMixed)) world0)) \<and>
   getUserConfig envConfigured (cli_config actionsMixed) = Some emptyConfig \<and>
   loadUserConfig envConfigured actionsMixed targetsMixed world0 =
     (Inr (mergeEnvWithOptions envConfigured
        (emptyConfig\<lparr>language := Some (getLanguage envConfigured emptyConfig actionsMixed)\<rparr>)),
      emit (GetUserConfig (cli_config actionsMixed)) world0) \<and>
   constructions envOnce (created world0) configA optionsA = Inl (AnalyzerErr ConfigurationError) \<and>
   answers envOnce (asked world0) DefaultConfigurationQuestion = Inr True \<and>
   getAnalyzer envOnce configA optionsA targetsMixed world0 =
     Some (Inl mixedTargetsError,
       world0\<lparr>created := 1, asked := 1,
         trace := [CreateAnalyzer configA optionsA, Ask DefaultConfigurationQuestion True,
                   Log DefaultMessage]\<rparr>)"
proof -
  have m: "mixed targetsMixed"
    by (simp add: mixed_def targetsMixed_def)
  have h: "getUserConfig env0 (cli_config actionsMixed) = None"
    "getAsUris env0 (underscore actionsMixed) = targetsMixed"
    "getUserConfig envConfigured (cli_config actionsMixed) = Some emptyConfig"
    "constructions envOnce (created world0) configA optionsA = Inl (AnalyzerErr ConfigurationError)"
    "answers envOnce (asked world0) DefaultConfigurationQuestion = Inr True"
    by (simp_all add: env0_def envConfigured_def envOnce_def actionsMixed_def actions0_def
        targetsMixed_def world0_def)
  from m h mixed_targets_usage_error [of targetsMixed env0 world0 actionsMixed]
    mixed_targets_usage_error [of targetsMixed envConfigured world0 actionsMixed]
    mixed_targets_usage_error [of targetsMixed envOnce world0 _ configA optionsA]
  show ?thesis by (simp add: world0_def)
qed

text \<open>
  The claim as stated fails: with a user configuration present, a mixed target list resolves to
  that configuration and the run goes on to analyze both targets.
\<close>

theorem mixed_targets_usage_error_counterexample:
  "mixed targetsMixed \<and>
   getAsUris envConfigured (underscore actionsMixed) = targetsMixed \<and>
   loadUserConfig envConfigured actionsMixed targetsMixed world0 =
     (Inr (emptyConfig\<lparr>language := Some ''en''\<rparr>), emit (GetUserConfig None) world0) \<and>
   map_option fst (analyze envConfigured actionsMixed world0) = Some (Inr True)"
  by (simp add: mixed_def run_defs envConfigured_def env0_def actionsMixed_def actions0_def
      targetsMixed_def world0_def emptyConfig_def actionsToOptions_def)

section \<open>The telemetry payload\<close>










end
